theory Spec2Isabelle
  imports Main "HOL-Library.Multiset" "HOL-Library.AList"
begin

section \<open>JavaScript values and string operations used by the program\<close>

text \<open>
  The program is one Node.js module (the Lambda handler and its helpers). Strings are
  modelled as \<^typ>\<open>string\<close>, one \<^typ>\<open>char\<close> per code unit; the string
  methods the module calls are \<open>indexOf\<close>, \<open>includes\<close> (here \<open>str_includes\<close>), \<open>substring\<close> and
  \<open>split\<close> with a one-character separator. \<open>indexOf\<close> returns the index of the
  first occurrence, or \<open>-1\<close>.
\<close>

fun indexOf :: "string \<Rightarrow> string \<Rightarrow> int" where
  "indexOf [] pat = (if pat = [] then 0 else - 1)"
| "indexOf (c # cs) pat =
     (if take (length pat) (c # cs) = pat then 0
      else (let i = indexOf cs pat in if i = - 1 then - 1 else i + 1))"

definition str_includes :: "string \<Rightarrow> string \<Rightarrow> bool" where
  "str_includes s pat = (indexOf s pat \<noteq> - 1)"

text \<open>\<open>s.substring(start)\<close>: a negative start counts as 0, a start past the end gives
  the empty string.\<close>

definition substring :: "string \<Rightarrow> int \<Rightarrow> string" where
  "substring s start = drop (nat start) s"

text \<open>\<open>s.split(sep)\<close> for a separator of one character: the empty string splits into
  one empty segment.\<close>

fun split_on :: "char \<Rightarrow> string \<Rightarrow> string list" where
  "split_on sep [] = [[]]"
| "split_on sep (c # cs) =
     (if c = sep then [] # split_on sep cs
      else (let r = split_on sep cs in (c # hd r) # tl r))"

text \<open>\<open>parts[i]\<close> is \<open>undefined\<close> (here \<open>None\<close>) past the end of the array.\<close>

definition at_index :: "'a list \<Rightarrow> nat \<Rightarrow> 'a option" where
  "at_index xs i = (if i < length xs then Some (xs ! i) else None)"

text \<open>\<open>v || d\<close> on a string that may be \<open>undefined\<close>: both \<open>undefined\<close> and the
  empty string are falsy, so both give \<open>d\<close>.\<close>

definition or_else :: "string option \<Rightarrow> string \<Rightarrow> string" where
  "or_else v d = (case v of None \<Rightarrow> d | Some s \<Rightarrow> if s = [] then d else s)"

section \<open>ARN helpers\<close>

definition extractAlbDimension :: "string \<Rightarrow> string" where
  "extractAlbDimension albArn =
     (let idx = indexOf albArn ''loadbalancer/'' in
      if idx = - 1 then albArn
      else substring albArn (idx + int (length ''loadbalancer/'')))"

definition extractClusterFromServiceArn :: "string \<Rightarrow> string" where
  "extractClusterFromServiceArn serviceArn =
     (let parts = split_on (CHR ''/'') serviceArn in
      or_else (at_index parts 1) ''unknown'')"

record cluster_and_service =
  cs_clusterName :: string
  cs_serviceName :: string

definition extractClusterAndService :: "string \<Rightarrow> cluster_and_service" where
  "extractClusterAndService serviceArn =
     (let parts = split_on (CHR ''/'') serviceArn in
      \<lparr> cs_clusterName = or_else (at_index parts 1) ''unknown-cluster'',
        cs_serviceName = or_else (at_index parts 2) ''unknown-service'' \<rparr>)"

section \<open>Discovered resources and the cluster grouping\<close>

text \<open>
  One entry of the tagging API's \<open>ResourceTagMappingList\<close>. The grouping guards against
  a missing \<open>ResourceARN\<close> and a missing \<open>Tags\<close> array, so both are optional here.
\<close>

record tag =
  Key :: string
  Value :: string

record resource_tag_mapping =
  ResourceARN :: "string option"
  Tags :: "tag list option"

record cluster_group =
  clusterName :: string
  ecsServices :: "string list"
  albs :: "string list"

text \<open>
  The \<open>clusters\<close> object of \<open>groupByCluster\<close> is a plain object literal \<open>{}\<close>: its own
  properties are kept in insertion order (an association list), and a property it does
  not own is looked up on \<open>Object.prototype\<close>. Every property of \<open>Object.prototype\<close>
  is a function or an object, hence truthy, and none of them has an \<open>ecsServices\<close> or
  \<open>albs\<close> property.
\<close>

type_synonym clusters = "(string \<times> cluster_group) list"

datatype error = TypeError | SdkError string

definition Object_prototype_keys :: "string list" where
  "Object_prototype_keys =
     [''constructor'', ''__defineGetter__'', ''__defineSetter__'', ''hasOwnProperty'',
      ''__lookupGetter__'', ''__lookupSetter__'', ''isPrototypeOf'',
      ''propertyIsEnumerable'', ''toString'', ''valueOf'', ''__proto__'',
      ''toLocaleString'']"

text \<open>Truthiness of \<open>clusters[name]\<close>: an own property is a bucket object.\<close>

definition prop_truthy :: "clusters \<Rightarrow> string \<Rightarrow> bool" where
  "prop_truthy clusters name =
     (map_of clusters name \<noteq> None \<or> name \<in> set Object_prototype_keys)"

text \<open>The cluster name of a mapping:
  \<open>(tags.find((t) => t.Key === clusterTagKey) || {}).Value || "unknown"\<close>
  with \<open>tags = m.Tags || []\<close>.\<close>

definition clusterNameOf :: "string \<Rightarrow> resource_tag_mapping \<Rightarrow> string" where
  "clusterNameOf clusterTagKey m =
     (let tags = (case Tags m of None \<Rightarrow> [] | Some ts \<Rightarrow> ts) in
      or_else (map_option Value (find (\<lambda>t. Key t = clusterTagKey) tags)) ''unknown'')"

text \<open>
  The body of the \<open>for (const m of mappings)\<close> loop. \<open>!arn\<close> holds for a missing and
  for an empty identifier. Pushing onto \<open>clusters[clusterName].ecsServices\<close> when
  \<open>clusters[clusterName]\<close> is an inherited property reads \<open>undefined.push\<close> and throws
  a \<open>TypeError\<close>.
\<close>

definition groupStep :: "string \<Rightarrow> clusters \<Rightarrow> resource_tag_mapping \<Rightarrow> error + clusters" where
  "groupStep clusterTagKey clusters m =
     (case ResourceARN m of
        None \<Rightarrow> Inr clusters
      | Some arn \<Rightarrow>
          if arn = [] then Inr clusters
          else
            (let name = clusterNameOf clusterTagKey m;
                 clusters1 =
                   (if \<not> prop_truthy clusters name
                    then AList.update name
                           \<lparr> clusterName = name, ecsServices = [], albs = [] \<rparr> clusters
                    else clusters)
             in if str_includes arn '':ecs:'' \<and> str_includes arn ''service/''
                then (case map_of clusters1 name of
                        None \<Rightarrow> Inl TypeError
                      | Some g \<Rightarrow>
                          Inr (AList.update name
                                 (g\<lparr> ecsServices := ecsServices g @ [arn] \<rparr>) clusters1))
                else if str_includes arn '':elasticloadbalancing:''
                        \<and> str_includes arn ''loadbalancer/''
                then (case map_of clusters1 name of
                        None \<Rightarrow> Inl TypeError
                      | Some g \<Rightarrow>
                          Inr (AList.update name (g\<lparr> albs := albs g @ [arn] \<rparr>) clusters1))
                else Inr clusters1))"

fun groupLoop :: "string \<Rightarrow> resource_tag_mapping list \<Rightarrow> clusters \<Rightarrow> error + clusters" where
  "groupLoop clusterTagKey [] clusters = Inr clusters"
| "groupLoop clusterTagKey (m # ms) clusters =
     (case groupStep clusterTagKey clusters m of
        Inl e \<Rightarrow> Inl e
      | Inr clusters' \<Rightarrow> groupLoop clusterTagKey ms clusters')"

definition groupByCluster :: "resource_tag_mapping list \<Rightarrow> string \<Rightarrow> error + clusters" where
  "groupByCluster mappings clusterTagKey = groupLoop clusterTagKey mappings []"

section \<open>Configuration and widgets\<close>

text \<open>
  The module reads five settings from the environment once, when it is loaded; they are
  a parameter of the model.
\<close>

record config =
  REGION :: string
  CLUSTER_TAG_KEY :: string
  TAG_VALUE :: string
  DASHBOARD_EXEC_PREFIX :: string
  DASHBOARD_DEV_PREFIX :: string

text \<open>
  An entry of a \<open>metrics\<close> array is an array of strings, possibly closed by an options
  object \<open>{ stat: ... }\<close>, or an array holding one search expression
  \<open>{ id, label, expression }\<close>.
\<close>

datatype metric_item =
    Str string
  | StatOption string
  | Expression (expr_id: string) (expr_label: string) (expr_expression: string)

record properties =
  p_region :: string
  p_view :: string
  p_period :: nat
  p_stat :: "string option"
  p_stacked :: "bool option"
  p_title :: string
  p_metrics :: "metric_item list list"

record widget =
  w_type :: string
  w_x :: nat
  w_y :: nat
  w_width :: nat
  w_height :: nat
  w_properties :: properties

text \<open>The titles use an en dash (U+2013), written here as its three UTF-8 bytes.\<close>

definition en_dash :: string where
  "en_dash = [CHR 0xE2, CHR 0x80, CHR 0x93]"

text \<open>The two quotation marks of the search expressions: the single quote (0x27) and
  the double quote (0x22).\<close>

definition squote :: string where
  "squote = [CHR 0x27]"

definition dquote :: string where
  "dquote = [CHR 0x22]"

definition buildExecutiveWidgets :: "config \<Rightarrow> cluster_group \<Rightarrow> widget list" where
  "buildExecutiveWidgets cfg resources =
     (let widgets = []; y = 0;
          (widgets, y) =
            (if length (albs resources) > 0
             then
               (let metrics =
                      foldl (\<lambda>metrics albArn.
                               (let lbDim = extractAlbDimension albArn in
                                metrics
                                  @ [[Str ''AWS/ApplicationELB'', Str ''RequestCount'',
                                      Str ''LoadBalancer'', Str lbDim]]
                                  @ [[Str ''.'', Str ''HTTPCode_Target_4XX_Count'', Str ''.'', Str ''.'']]
                                  @ [[Str ''.'', Str ''HTTPCode_Target_5XX_Count'', Str ''.'', Str ''.'']]))
                            [] (albs resources)
                in (widgets @
                      [\<lparr> w_type = ''metric'', w_x = 0, w_y = y, w_width = 12, w_height = 6,
                         w_properties =
                           \<lparr> p_region = REGION cfg, p_view = ''timeSeries'', p_period = 60,
                             p_stat = Some ''Sum'', p_stacked = Some False,
                             p_title = clusterName resources @ '' '' @ en_dash
                                         @ '' ALB Traffic & Errors'',
                             p_metrics = metrics \<rparr> \<rparr>],
                    y + 6))
             else (widgets, y));
          (widgets, y) =
            (if length (albs resources) > 0
             then
               (let metrics =
                      foldl (\<lambda>metrics albArn.
                               (let lbDim = extractAlbDimension albArn in
                                metrics
                                  @ [[Str ''AWS/ApplicationELB'', Str ''TargetResponseTime'',
                                      Str ''LoadBalancer'', Str lbDim, StatOption ''p95'']]))
                            [] (albs resources)
                in (widgets @
                      [\<lparr> w_type = ''metric'', w_x = 0, w_y = y, w_width = 12, w_height = 6,
                         w_properties =
                           \<lparr> p_region = REGION cfg, p_view = ''timeSeries'', p_period = 60,
                             p_stat = None, p_stacked = None,
                             p_title = clusterName resources @ '' '' @ en_dash
                                         @ '' Latency (p95)'',
                             p_metrics = metrics \<rparr> \<rparr>],
                    y + 6))
             else (widgets, y));
          widgets =
            (if length (ecsServices resources) > 0
             then
               (let clusterName' = extractClusterFromServiceArn (ecsServices resources ! 0);
                    metrics =
                      [[Str ''AWS/ECS'', Str ''CPUUtilization'', Str ''ClusterName'', Str clusterName'],
                       [Str ''.'', Str ''MemoryUtilization'', Str ''.'', Str ''.''],
                       [Str ''.'', Str ''RunningTaskCount'', Str ''.'', Str ''.''],
                       [Str ''.'', Str ''DesiredTaskCount'', Str ''.'', Str ''.'']]
                in widgets @
                     [\<lparr> w_type = ''metric'', w_x = 0, w_y = y, w_width = 12, w_height = 6,
                        w_properties =
                          \<lparr> p_region = REGION cfg, p_view = ''timeSeries'', p_period = 60,
                            p_stat = None, p_stacked = None,
                            p_title = clusterName resources @ '' '' @ en_dash
                                        @ '' ECS Utilization & Tasks'',
                            p_metrics = metrics \<rparr> \<rparr>])
             else widgets)
      in widgets)"

definition buildEcsClusterTasksWidget :: "config \<Rightarrow> string \<Rightarrow> nat \<Rightarrow> nat \<Rightarrow> widget" where
  "buildEcsClusterTasksWidget cfg clusterName' x y =
     \<lparr> w_type = ''metric'', w_x = x, w_y = y, w_width = 12, w_height = 6,
       w_properties =
         \<lparr> p_region = REGION cfg, p_view = ''timeSeries'', p_period = 60,
           p_stat = Some ''Sum'', p_stacked = None,
           p_title = clusterName' @ '' '' @ en_dash @ '' ECS Tasks (Running vs Desired)'',
           p_metrics =
             [[Expression ''run'' ''Running (sum across services)''
                 (''SEARCH('' @ squote
                    @ ''{AWS/ECS,ClusterName,ServiceName} MetricName='' @ dquote
                    @ ''RunningTaskCount'' @ dquote @ '' ClusterName='' @ dquote
                    @ clusterName' @ dquote @ squote @ '', '' @ squote @ ''Sum''
                    @ squote @ '', 60)'')],
              [Expression ''des'' ''Desired (sum across services)''
                 (''SEARCH('' @ squote
                    @ ''{AWS/ECS,ClusterName,ServiceName} MetricName='' @ dquote
                    @ ''DesiredTaskCount'' @ dquote @ '' ClusterName='' @ dquote
                    @ clusterName' @ dquote @ squote @ '', '' @ squote @ ''Sum''
                    @ squote @ '', 60)'')]] \<rparr> \<rparr>"

text \<open>A function that falls off its end returns \<open>undefined\<close>: \<open>None\<close> when the group has
  no load balancer.\<close>

definition buildAlbTlsNegotiationErrorsWidget ::
  "config \<Rightarrow> cluster_group \<Rightarrow> nat \<Rightarrow> nat \<Rightarrow> nat \<Rightarrow> nat \<Rightarrow> widget option" where
  "buildAlbTlsNegotiationErrorsWidget cfg resources x y width height =
     (if length (albs resources) > 0
      then
        (let metrics =
               foldl (\<lambda>metrics albArn.
                        (let lbDim = extractAlbDimension albArn in
                         metrics
                           @ [[Str ''AWS/ApplicationELB'', Str ''ClientTLSNegotiationErrorCount'',
                               Str ''LoadBalancer'', Str lbDim]]))
                     [] (albs resources)
         in Some \<lparr> w_type = ''metric'', w_x = x, w_y = y, w_width = width, w_height = height,
                   w_properties =
                     \<lparr> p_region = REGION cfg, p_view = ''timeSeries'', p_period = 60,
                       p_stat = Some ''Sum'', p_stacked = None,
                       p_title = ''ALB Client TLS Negotiation Errors'',
                       p_metrics = metrics \<rparr> \<rparr>)
      else None)"

text \<open>The widget literal of the first per-service loop (CPU and memory).\<close>

definition cpuMemWidget :: "config \<Rightarrow> nat \<Rightarrow> nat \<Rightarrow> string \<Rightarrow> nat \<Rightarrow> nat \<Rightarrow> widget" where
  "cpuMemWidget cfg width height svcArn x y =
     (let cs = extractClusterAndService svcArn;
          clusterName' = cs_clusterName cs;
          serviceName = cs_serviceName cs;
          metrics =
            [[Str ''AWS/ECS'', Str ''CPUUtilization'', Str ''ClusterName'', Str clusterName',
              Str ''ServiceName'', Str serviceName],
             [Str ''.'', Str ''MemoryUtilization'', Str ''.'', Str ''.'', Str ''.'', Str ''.'']]
      in \<lparr> w_type = ''metric'', w_x = x, w_y = y, w_width = width, w_height = height,
           w_properties =
             \<lparr> p_region = REGION cfg, p_view = ''timeSeries'', p_period = 60,
               p_stat = None, p_stacked = None,
               p_title = ''Service '' @ en_dash @ '' '' @ serviceName @ '' CPU & Memory'',
               p_metrics = metrics \<rparr> \<rparr>)"

text \<open>The widget literal of the second per-service loop (task counts).\<close>

definition tasksWidget :: "config \<Rightarrow> nat \<Rightarrow> nat \<Rightarrow> string \<Rightarrow> nat \<Rightarrow> nat \<Rightarrow> widget" where
  "tasksWidget cfg width height svcArn x y =
     (let cs = extractClusterAndService svcArn;
          clusterName' = cs_clusterName cs;
          serviceName = cs_serviceName cs;
          metrics =
            [[Str ''AWS/ECS'', Str ''RunningTaskCount'', Str ''ClusterName'', Str clusterName',
              Str ''ServiceName'', Str serviceName],
             [Str ''.'', Str ''DesiredTaskCount'', Str ''.'', Str ''.'', Str ''.'', Str ''.'']]
      in \<lparr> w_type = ''metric'', w_x = x, w_y = y, w_width = width, w_height = height,
           w_properties =
             \<lparr> p_region = REGION cfg, p_view = ''timeSeries'', p_period = 60,
               p_stat = None, p_stacked = None,
               p_title = ''Service '' @ en_dash @ '' '' @ serviceName @ '' Tasks'',
               p_metrics = metrics \<rparr> \<rparr>)"

text \<open>
  Both \<open>for (const svcArn of resources.ecsServices)\<close> loops of the developer builder
  push one widget at the cursor \<open>(x, y)\<close> and then move the cursor the same way:
  \<open>col++\<close>, and on the third column back to \<open>x = 0\<close> on the next row. The loop is
  written once, over the widget literal \<open>mk\<close>; its state is \<open>(x, y, col, widgets)\<close>.
\<close>

fun serviceLoop ::
  "(string \<Rightarrow> nat \<Rightarrow> nat \<Rightarrow> widget) \<Rightarrow> nat \<Rightarrow> nat \<Rightarrow> string list
   \<Rightarrow> nat \<times> nat \<times> nat \<times> widget list \<Rightarrow> nat \<times> nat \<times> nat \<times> widget list" where
  "serviceLoop mk width height [] st = st"
| "serviceLoop mk width height (svcArn # rest) (x, y, col, widgets) =
     (let widgets = widgets @ [mk svcArn x y];
          col = col + 1
      in if col = 3
         then serviceLoop mk width height rest (0, y + height, 0, widgets)
         else serviceLoop mk width height rest (x + width, y, col, widgets))"

text \<open>
  The developer builder. The results of its first two calls, the TLS widget and the
  aggregate task widget, are not stored anywhere: the source calls both builders as
  statements and never pushes what they return.
\<close>

definition buildDeveloperWidgets :: "config \<Rightarrow> cluster_group \<Rightarrow> widget list" where
  "buildDeveloperWidgets cfg resources =
     (let widgets = []; width = 8; height = 6;
          x = 0; y = 0; col = 0;
          discarded_tls = buildAlbTlsNegotiationErrorsWidget cfg resources 0 0 12 6;
          discarded_tasks = buildEcsClusterTasksWidget cfg (clusterName resources) 0 6;
          (x, y, col, widgets) =
            serviceLoop (cpuMemWidget cfg width height) width height
              (ecsServices resources) (x, y, col, widgets);
          (x, y, col, widgets) =
            (if length (ecsServices resources) > 0
             then serviceLoop (tasksWidget cfg width height) width height
                    (ecsServices resources) (0, y + height, 0, widgets)
             else (x, y, col, widgets));
          widgets =
            (if length (albs resources) > 0
             then
               (let (metricsErrors, metricsLatency) =
                      foldl (\<lambda>(metricsErrors, metricsLatency) albArn.
                               (let lbDim = extractAlbDimension albArn in
                                (metricsErrors
                                   @ [[Str ''AWS/ApplicationELB'', Str ''HTTPCode_Target_4XX_Count'',
                                       Str ''LoadBalancer'', Str lbDim]]
                                   @ [[Str ''.'', Str ''HTTPCode_Target_5XX_Count'', Str ''.'', Str ''.'']],
                                 metricsLatency
                                   @ [[Str ''AWS/ApplicationELB'', Str ''TargetResponseTime'',
                                       Str ''LoadBalancer'', Str lbDim, StatOption ''p95'']])))
                            ([], []) (albs resources)
                in widgets
                     @ [\<lparr> w_type = ''metric'', w_x = 0, w_y = y + height, w_width = 12, w_height = 6,
                          w_properties =
                            \<lparr> p_region = REGION cfg, p_view = ''timeSeries'', p_period = 60,
                              p_stat = None, p_stacked = None,
                              p_title = clusterName resources @ '' '' @ en_dash @ '' ALB Errors'',
                              p_metrics = metricsErrors \<rparr> \<rparr>]
                     @ [\<lparr> w_type = ''metric'', w_x = 12, w_y = y + height, w_width = 12, w_height = 6,
                          w_properties =
                            \<lparr> p_region = REGION cfg, p_view = ''timeSeries'', p_period = 60,
                              p_stat = None, p_stacked = None,
                              p_title = clusterName resources @ '' '' @ en_dash
                                          @ '' ALB Latency (p95)'',
                              p_metrics = metricsLatency \<rparr> \<rparr>])
             else widgets)
      in widgets)"

section \<open>The two AWS clients and the handler\<close>

text \<open>
  The module talks to two services through \<open>client.send\<close>. The model keeps what has
  reached them in a \<open>world\<close>: the tagging requests sent, the dashboards stored, and the
  console output. What a service answers is a parameter: \<open>tagging\<close> maps the world
  before a request and the request to a response or an error, \<open>cloudwatch\<close> says whether
  a \<open>PutDashboard\<close> request is rejected. A rejected promise is an exception at the
  \<open>await\<close>; it is the \<open>Inl\<close> branch here.
\<close>

record tag_filter =
  FilterKey :: string
  FilterValues :: "string list"

record get_resources_command =
  TagFilters :: "tag_filter list"
  ResourcesPerPage :: nat
  req_PaginationToken :: "string option"

record get_resources_output =
  ResourceTagMappingList :: "resource_tag_mapping list option"
  resp_PaginationToken :: "string option"

text \<open>The body \<open>JSON.stringify({ widgets })\<close> is kept as the document it serialises.\<close>

datatype dashboard_body = Widgets_document "widget list"

record put_dashboard_command =
  DashboardName :: string
  DashboardBody :: dashboard_body

record world =
  requests :: "get_resources_command list"
  dashboards :: "put_dashboard_command list"
  console :: "string list"

type_synonym tagging_service = "world \<Rightarrow> get_resources_command \<Rightarrow> error + get_resources_output"

type_synonym cloudwatch_service = "world \<Rightarrow> put_dashboard_command \<Rightarrow> error option"

definition tagging_send ::
  "tagging_service \<Rightarrow> get_resources_command \<Rightarrow> world \<Rightarrow> (error + get_resources_output) \<times> world" where
  "tagging_send tagging cmd w = (tagging w cmd, w\<lparr> requests := requests w @ [cmd] \<rparr>)"

text \<open>\<open>while (PaginationToken)\<close>: a missing token and the empty string are falsy.\<close>

definition token_truthy :: "string option \<Rightarrow> bool" where
  "token_truthy t = (case t of None \<Rightarrow> False | Some s \<Rightarrow> s \<noteq> [])"

text \<open>
  The \<open>do ... while\<close> loop of \<open>listTaggedResources\<close>, entered with the accumulator
  \<open>out\<close> and the current token. Nothing bounds the number of pages, so the loop is a
  partial function: \<open>None\<close> is a run that never returns.
\<close>

partial_function (option) listLoop ::
  "tagging_service \<Rightarrow> string \<Rightarrow> string \<Rightarrow> resource_tag_mapping list \<Rightarrow> string option \<Rightarrow> world
   \<Rightarrow> ((error + resource_tag_mapping list) \<times> world) option" where
  "listLoop tagging tagKey tagValue out PaginationToken w =
     (case tagging_send tagging
             \<lparr> TagFilters = [\<lparr> FilterKey = tagKey, FilterValues = [tagValue] \<rparr>],
               ResourcesPerPage = 50,
               req_PaginationToken = PaginationToken \<rparr> w of
        (Inl e, w') \<Rightarrow> Some (Inl e, w')
      | (Inr resp, w') \<Rightarrow>
          (let out = (case ResourceTagMappingList resp of
                        None \<Rightarrow> out
                      | Some l \<Rightarrow> out @ l);
               PaginationToken = resp_PaginationToken resp
           in if token_truthy PaginationToken
              then listLoop tagging tagKey tagValue out PaginationToken w'
              else Some (Inr out, w')))"

definition listTaggedResources ::
  "tagging_service \<Rightarrow> string \<Rightarrow> string \<Rightarrow> world
   \<Rightarrow> ((error + resource_tag_mapping list) \<times> world) option" where
  "listTaggedResources tagging tagKey tagValue w = listLoop tagging tagKey tagValue [] None w"

definition putDashboard ::
  "cloudwatch_service \<Rightarrow> string \<Rightarrow> widget list \<Rightarrow> world \<Rightarrow> (error + unit) \<times> world" where
  "putDashboard cloudwatch name widgets w =
     (let body = Widgets_document widgets;
          cmd = \<lparr> DashboardName = name, DashboardBody = body \<rparr>
      in case cloudwatch w cmd of
           Some e \<Rightarrow> (Inl e, w)
         | None \<Rightarrow>
             (Inr (), w\<lparr> dashboards := dashboards w @ [cmd],
                        console := console w @ [''Updated dashboard: '' @ name] \<rparr>))"

text \<open>
  \<open>Object.keys(clusters)\<close>: the own keys that are array indices (canonical decimal
  numerals below \<open>2^32 - 1\<close>) come first, in ascending numeric order; the other keys
  follow in insertion order.
\<close>

definition is_digit :: "char \<Rightarrow> bool" where
  "is_digit c = (48 \<le> (of_char c :: nat) \<and> (of_char c :: nat) \<le> 57)"

definition decimal_value :: "string \<Rightarrow> nat" where
  "decimal_value s = foldl (\<lambda>n c. 10 * n + ((of_char c :: nat) - 48)) 0 s"

definition is_array_index :: "string \<Rightarrow> bool" where
  "is_array_index s =
     (s \<noteq> [] \<and> list_all is_digit s \<and> (s = ''0'' \<or> hd s \<noteq> CHR ''0'')
      \<and> decimal_value s < 4294967295)"

definition Object_keys :: "clusters \<Rightarrow> string list" where
  "Object_keys clusters =
     sort_key decimal_value (filter is_array_index (map fst clusters))
       @ filter (\<lambda>k. \<not> is_array_index k) (map fst clusters)"

text \<open>
  The \<open>for (const clusterName of Object.keys(clusters))\<close> loop of the handler. There is
  no \<open>try\<close> around either \<open>await putDashboard(...)\<close>: a rejection leaves the loop.
\<close>

fun handlerLoop ::
  "config \<Rightarrow> cloudwatch_service \<Rightarrow> clusters \<Rightarrow> string list \<Rightarrow> world \<Rightarrow> (error + unit) \<times> world" where
  "handlerLoop cfg cloudwatch clusters [] w = (Inr (), w)"
| "handlerLoop cfg cloudwatch clusters (clusterName' # rest) w =
     (case map_of clusters clusterName' of
        None \<Rightarrow> (Inl TypeError, w)
      | Some resources \<Rightarrow>
          (let execWidgets = buildExecutiveWidgets cfg resources;
               devWidgets = buildDeveloperWidgets cfg resources
           in case putDashboard cloudwatch (DASHBOARD_EXEC_PREFIX cfg @ clusterName') execWidgets w of
                (Inl e, w1) \<Rightarrow> (Inl e, w1)
              | (Inr u, w1) \<Rightarrow>
                  (case putDashboard cloudwatch (DASHBOARD_DEV_PREFIX cfg @ clusterName') devWidgets w1 of
                     (Inl e, w2) \<Rightarrow> (Inl e, w2)
                   | (Inr u', w2) \<Rightarrow>
                       handlerLoop cfg cloudwatch clusters rest
                         (w2\<lparr> console := console w2
                                 @ [''Dashboards updated for cluster: '' @ clusterName'] \<rparr>))))"

text \<open>The handler's result; \<open>body\<close> is \<open>JSON.stringify({ clusters: Object.keys(clusters) })\<close>,
  kept as the list it serialises.\<close>

record handler_result =
  statusCode :: nat
  body_clusters :: "string list"

definition handler ::
  "config \<Rightarrow> tagging_service \<Rightarrow> cloudwatch_service \<Rightarrow> world
   \<Rightarrow> ((error + handler_result) \<times> world) option" where
  "handler cfg tagging cloudwatch w =
     (case listTaggedResources tagging (CLUSTER_TAG_KEY cfg) (TAG_VALUE cfg) w of
        None \<Rightarrow> None
      | Some (Inl e, w1) \<Rightarrow> Some (Inl e, w1)
      | Some (Inr mappings, w1) \<Rightarrow>
          (case groupByCluster mappings (CLUSTER_TAG_KEY cfg) of
             Inl e \<Rightarrow> Some (Inl e, w1)
           | Inr clusters \<Rightarrow>
               (case handlerLoop cfg cloudwatch clusters (Object_keys clusters) w1 of
                  (Inl e, w2) \<Rightarrow> Some (Inl e, w2)
                | (Inr u, w2) \<Rightarrow>
                    Some (Inr \<lparr> statusCode = 200, body_clusters = Object_keys clusters \<rparr>, w2))))"

section \<open>Vocabulary for the grouping's result\<close>

text \<open>
  What the loop of \<open>groupByCluster\<close> does to one mapping, read off its branches: a
  mapping counts when its identifier is non-empty; it is a service when the first test
  holds, a load balancer when only the second does. \<open>grouped\<close> mappings own a bucket;
  \<open>throws\<close> marks the mappings on which the push raises.
\<close>

definition arn_of :: "resource_tag_mapping \<Rightarrow> string" where
  "arn_of m = (case ResourceARN m of None \<Rightarrow> [] | Some a \<Rightarrow> a)"

definition is_service :: "string \<Rightarrow> bool" where
  "is_service arn = (str_includes arn '':ecs:'' \<and> str_includes arn ''service/'')"

definition is_alb :: "string \<Rightarrow> bool" where
  "is_alb arn = (\<not> is_service arn \<and> str_includes arn '':elasticloadbalancing:''
                 \<and> str_includes arn ''loadbalancer/'')"

definition grouped :: "string \<Rightarrow> resource_tag_mapping \<Rightarrow> bool" where
  "grouped k m = (arn_of m \<noteq> [] \<and> clusterNameOf k m \<notin> set Object_prototype_keys)"

definition services_in :: "string \<Rightarrow> string \<Rightarrow> resource_tag_mapping list \<Rightarrow> string list" where
  "services_in k c ms =
     map arn_of (filter (\<lambda>m. grouped k m \<and> clusterNameOf k m = c \<and> is_service (arn_of m)) ms)"

definition albs_in :: "string \<Rightarrow> string \<Rightarrow> resource_tag_mapping list \<Rightarrow> string list" where
  "albs_in k c ms =
     map arn_of (filter (\<lambda>m. grouped k m \<and> clusterNameOf k m = c \<and> is_alb (arn_of m)) ms)"

definition names_in :: "string \<Rightarrow> resource_tag_mapping list \<Rightarrow> string set" where
  "names_in k ms = clusterNameOf k ` {m \<in> set ms. grouped k m}"

definition throws :: "string \<Rightarrow> resource_tag_mapping \<Rightarrow> bool" where
  "throws k m = (arn_of m \<noteq> [] \<and> clusterNameOf k m \<in> set Object_prototype_keys
                 \<and> (is_service (arn_of m) \<or> is_alb (arn_of m)))"

definition own_only :: "clusters \<Rightarrow> bool" where
  "own_only cl = (\<forall>n. n \<in> set Object_prototype_keys \<longrightarrow> map_of cl n = None)"

definition bucket_add :: "string \<Rightarrow> cluster_group \<Rightarrow> cluster_group" where
  "bucket_add a g =
     g\<lparr> ecsServices := ecsServices g @ (if is_service a then [a] else []),
        albs := albs g @ (if is_alb a then [a] else []) \<rparr>"

definition step_map ::
  "string \<Rightarrow> resource_tag_mapping \<Rightarrow> (string \<rightharpoonup> cluster_group) \<Rightarrow> (string \<rightharpoonup> cluster_group)" where
  "step_map k m M =
     (if grouped k m
      then M(clusterNameOf k m \<mapsto>
               bucket_add (arn_of m)
                 (case M (clusterNameOf k m) of
                    None \<Rightarrow> \<lparr> clusterName = clusterNameOf k m, ecsServices = [], albs = [] \<rparr>
                  | Some g \<Rightarrow> g))
      else M)"


section \<open>Vocabulary for the layout\<close>

text \<open>
  The origin of a widget, and the cell of the \<open>i\<close>-th widget of a three-column block
  that starts in row \<open>y0\<close>.
\<close>

definition origin :: "widget \<Rightarrow> nat \<times> nat" where
  "origin w = (w_x w, w_y w)"

definition grid_cell :: "nat \<Rightarrow> nat \<Rightarrow> nat \<Rightarrow> nat \<Rightarrow> nat \<times> nat" where
  "grid_cell width height y0 i = (width * (i mod 3), y0 + height * (i div 3))"

section \<open>Vocabulary for the discovery\<close>

text \<open>
  The request \<open>listTaggedResources\<close> sends for a token, the mappings of a response, and
  what it means for the tagging service to serve a sequence of pages: it answers the
  request for the current token with the first page, and, while a page carries a token,
  the request for that token with the next.
\<close>

definition page_request :: "string \<Rightarrow> string \<Rightarrow> string option \<Rightarrow> get_resources_command" where
  "page_request tagKey tagValue token =
     \<lparr> TagFilters = [\<lparr> FilterKey = tagKey, FilterValues = [tagValue] \<rparr>],
       ResourcesPerPage = 50,
       req_PaginationToken = token \<rparr>"

definition page_mappings :: "get_resources_output \<Rightarrow> resource_tag_mapping list" where
  "page_mappings resp = (case ResourceTagMappingList resp of None \<Rightarrow> [] | Some l \<Rightarrow> l)"

fun pages_served ::
  "tagging_service \<Rightarrow> string \<Rightarrow> string \<Rightarrow> string option \<Rightarrow> world \<Rightarrow> get_resources_output list \<Rightarrow> bool" where
  "pages_served tagging tagKey tagValue token w [] = False"
| "pages_served tagging tagKey tagValue token w (resp # rest) =
     (tagging w (page_request tagKey tagValue token) = Inr resp \<and>
      (if token_truthy (resp_PaginationToken resp)
       then pages_served tagging tagKey tagValue (resp_PaginationToken resp)
              (w\<lparr> requests := requests w @ [page_request tagKey tagValue token] \<rparr>) rest
       else rest = []))"

section \<open>Vocabulary for the handler's runs\<close>

text \<open>
  The two \<open>PutDashboard\<close> requests the handler sends for an own key \<open>k\<close> of
  \<open>clusters\<close>, the world after the executive dashboard of \<open>k\<close> has been stored, the
  world after the clusters \<open>ks\<close> have been processed in full, and what it means for the
  CloudWatch service to accept both dashboards of each of the clusters \<open>ks\<close>, one
  after the other.
\<close>

definition exec_command :: "config \<Rightarrow> clusters \<Rightarrow> string \<Rightarrow> put_dashboard_command" where
  "exec_command cfg clusters k =
     \<lparr> DashboardName = DASHBOARD_EXEC_PREFIX cfg @ k,
       DashboardBody = Widgets_document (buildExecutiveWidgets cfg (the (map_of clusters k))) \<rparr>"

definition dev_command :: "config \<Rightarrow> clusters \<Rightarrow> string \<Rightarrow> put_dashboard_command" where
  "dev_command cfg clusters k =
     \<lparr> DashboardName = DASHBOARD_DEV_PREFIX cfg @ k,
       DashboardBody = Widgets_document (buildDeveloperWidgets cfg (the (map_of clusters k))) \<rparr>"

definition exec_published :: "config \<Rightarrow> clusters \<Rightarrow> string \<Rightarrow> world \<Rightarrow> world" where
  "exec_published cfg clusters k w =
     w\<lparr> dashboards := dashboards w @ [exec_command cfg clusters k],
        console := console w @ [''Updated dashboard: '' @ DASHBOARD_EXEC_PREFIX cfg @ k] \<rparr>"

definition published :: "config \<Rightarrow> clusters \<Rightarrow> string list \<Rightarrow> world \<Rightarrow> world" where
  "published cfg clusters ks w =
     w\<lparr> dashboards := dashboards w
          @ concat (map (\<lambda>k. [exec_command cfg clusters k, dev_command cfg clusters k]) ks),
        console := console w
          @ concat (map (\<lambda>k. [''Updated dashboard: '' @ DASHBOARD_EXEC_PREFIX cfg @ k,
                                ''Updated dashboard: '' @ DASHBOARD_DEV_PREFIX cfg @ k,
                                ''Dashboards updated for cluster: '' @ k]) ks) \<rparr>"

fun accepts_all :: "cloudwatch_service \<Rightarrow> config \<Rightarrow> clusters \<Rightarrow> string list \<Rightarrow> world \<Rightarrow> bool" where
  "accepts_all cloudwatch cfg clusters [] w = True"
| "accepts_all cloudwatch cfg clusters (k # ks) w =
     (cloudwatch w (exec_command cfg clusters k) = None \<and>
      cloudwatch (exec_published cfg clusters k w) (dev_command cfg clusters k) = None \<and>
      accepts_all cloudwatch cfg clusters ks (published cfg clusters [k] w))"

section \<open>Concrete inputs\<close>

text \<open>
  The mappings of the spec's end-to-end scenarios (a service and a load balancer, both
  tagged \<open>Cluster = prod\<close>), a second service of the same cluster, an identifier that
  carries the markers of both kinds, and a mapping whose cluster tag has the empty
  value.
\<close>

definition scenario_service :: resource_tag_mapping where
  "scenario_service =
     \<lparr> ResourceARN = Some ''arn:aws:ecs:us-east-1:1:service/prod/api'',
       Tags = Some [\<lparr> Key = ''Cluster'', Value = ''prod'' \<rparr>] \<rparr>"

definition scenario_alb :: resource_tag_mapping where
  "scenario_alb =
     \<lparr> ResourceARN = Some ''arn:aws:elasticloadbalancing:us-east-1:1:loadbalancer/app/web/abc'',
       Tags = Some [\<lparr> Key = ''Team'', Value = ''NodeJS'' \<rparr>, \<lparr> Key = ''Cluster'', Value = ''prod'' \<rparr>] \<rparr>"

definition scenario_worker :: resource_tag_mapping where
  "scenario_worker =
     \<lparr> ResourceARN = Some ''arn:aws:ecs:us-east-1:1:service/prod/worker'',
       Tags = Some [\<lparr> Key = ''Cluster'', Value = ''prod'' \<rparr>] \<rparr>"

definition scenario_group :: cluster_group where
  "scenario_group =
     \<lparr> clusterName = ''prod'',
       ecsServices = [''arn:aws:ecs:us-east-1:1:service/prod/api''],
       albs = [''arn:aws:elasticloadbalancing:us-east-1:1:loadbalancer/app/web/abc''] \<rparr>"

definition both_markers_arn :: string where
  "both_markers_arn = ''arn:aws:ecs:us-east-1:1:service/prod/loadbalancer/:elasticloadbalancing:''"

definition both_markers_mapping :: resource_tag_mapping where
  "both_markers_mapping =
     \<lparr> ResourceARN = Some both_markers_arn,
       Tags = Some [\<lparr> Key = ''Cluster'', Value = ''prod'' \<rparr>] \<rparr>"

definition empty_value_mapping :: resource_tag_mapping where
  "empty_value_mapping =
     \<lparr> ResourceARN = Some ''arn:aws:ecs:us-east-1:1:service/prod/api'',
       Tags = Some [\<lparr> Key = ''Cluster'', Value = [] \<rparr>] \<rparr>"

definition scenario_config :: config where
  "scenario_config =
     \<lparr> REGION = ''us-east-1'', CLUSTER_TAG_KEY = ''Cluster'', TAG_VALUE = ''NodeJS'',
       DASHBOARD_EXEC_PREFIX = ''Exec-'', DASHBOARD_DEV_PREFIX = ''Dev-'' \<rparr>"

definition alb_only_group :: cluster_group where
  "alb_only_group =
     \<lparr> clusterName = ''prod'', ecsServices = [],
       albs = [''arn:aws:elasticloadbalancing:us-east-1:1:loadbalancer/app/web/abc''] \<rparr>"




text \<open>
  Services for the handler: a tagging service that answers in three pages, one that
  answers with three resources of three clusters in one page, and two CloudWatch
  services that each reject one dashboard name. The handler does not compare what the
  tagging service returns with the filter it sent.
\<close>

definition empty_world :: world where
  "empty_world = \<lparr> requests = [], dashboards = [], console = [] \<rparr>"

definition three_page_tagging :: tagging_service where
  "three_page_tagging w cmd =
     (case req_PaginationToken cmd of
        None \<Rightarrow> Inr \<lparr> ResourceTagMappingList = Some [scenario_service],
                      resp_PaginationToken = Some ''t1'' \<rparr>
      | Some t \<Rightarrow>
          if t = ''t1''
          then Inr \<lparr> ResourceTagMappingList = Some [], resp_PaginationToken = Some ''t2'' \<rparr>
          else if t = ''t2''
          then Inr \<lparr> ResourceTagMappingList = Some [scenario_alb], resp_PaginationToken = None \<rparr>
          else Inl (SdkError ''InvalidToken''))"

definition mapping_a :: resource_tag_mapping where
  "mapping_a =
     \<lparr> ResourceARN = Some ''arn:aws:elasticloadbalancing:us-east-1:1:loadbalancer/app/a/1'',
       Tags = Some [\<lparr> Key = ''Cluster'', Value = ''a'' \<rparr>] \<rparr>"

definition mapping_b :: resource_tag_mapping where
  "mapping_b =
     \<lparr> ResourceARN = Some ''arn:aws:elasticloadbalancing:us-east-1:1:loadbalancer/app/b/2'',
       Tags = Some [\<lparr> Key = ''Cluster'', Value = ''b'' \<rparr>] \<rparr>"

definition mapping_c :: resource_tag_mapping where
  "mapping_c =
     \<lparr> ResourceARN = Some ''arn:aws:elasticloadbalancing:us-east-1:1:loadbalancer/app/c/3'',
       Tags = Some [\<lparr> Key = ''Cluster'', Value = ''c'' \<rparr>] \<rparr>"

definition three_clusters :: clusters where
  "three_clusters =
     [(''a'', \<lparr> clusterName = ''a'', ecsServices = [],
               albs = [''arn:aws:elasticloadbalancing:us-east-1:1:loadbalancer/app/a/1''] \<rparr>),
      (''b'', \<lparr> clusterName = ''b'', ecsServices = [],
               albs = [''arn:aws:elasticloadbalancing:us-east-1:1:loadbalancer/app/b/2''] \<rparr>),
      (''c'', \<lparr> clusterName = ''c'', ecsServices = [],
               albs = [''arn:aws:elasticloadbalancing:us-east-1:1:loadbalancer/app/c/3''] \<rparr>)]"

definition three_cluster_tagging :: tagging_service where
  "three_cluster_tagging w cmd =
     Inr \<lparr> ResourceTagMappingList = Some [mapping_a, mapping_b, mapping_c],
           resp_PaginationToken = None \<rparr>"

definition reject_exec_a :: cloudwatch_service where
  "reject_exec_a w cmd =
     (if DashboardName cmd = ''Exec-a'' then Some (SdkError ''rejected'') else None)"

definition reject_dev_b :: cloudwatch_service where
  "reject_dev_b w cmd =
     (if DashboardName cmd = ''Dev-b'' then Some (SdkError ''rejected'') else None)"

section \<open>Properties of the string operations\<close>

lemma indexOf_first:
  "(\<And>p' s'. pre @ pat @ suf = p' @ pat @ s' \<Longrightarrow> length pre \<le> length p')
   \<Longrightarrow> indexOf (pre @ pat @ suf) pat = int (length pre)"
proof (induction pre)
  case Nil
  have "indexOf (pat @ suf) pat = 0"
  proof (cases "pat @ suf")
    case Nil
    then show ?thesis by simp
  next
    case (Cons a l)
    have "take (length pat) (a # l) = pat"
      using Cons [symmetric] by simp
    then show ?thesis by (simp add: Cons)
  qed
  then show ?case by simp
next
  case (Cons c pre)
  have no_head: "take (length pat) (c # pre @ pat @ suf) \<noteq> pat"
  proof
    assume h: "take (length pat) (c # pre @ pat @ suf) = pat"
    have "(c # pre) @ pat @ suf = [] @ pat @ drop (length pat) (c # pre @ pat @ suf)"
      using append_take_drop_id [of "length pat" "c # pre @ pat @ suf"] h by simp
    from Cons.prems [OF this] show False by simp
  qed
  have "indexOf (pre @ pat @ suf) pat = int (length pre)"
  proof (rule Cons.IH)
    fix p' s' assume "pre @ pat @ suf = p' @ pat @ s'"
    then have "(c # pre) @ pat @ suf = (c # p') @ pat @ s'" by simp
    from Cons.prems [OF this] show "length pre \<le> length p'" by simp
  qed
  with no_head show ?case by (simp add: Let_def)
qed

lemma indexOf_absent:
  "(\<And>pre suf. s \<noteq> pre @ pat @ suf) \<Longrightarrow> indexOf s pat = - 1"
proof (induction s)
  case Nil
  from Nil [of "[]" "[]"] show ?case by auto
next
  case (Cons c cs)
  have no_head: "take (length pat) (c # cs) \<noteq> pat"
  proof
    assume h: "take (length pat) (c # cs) = pat"
    have "c # cs = [] @ pat @ drop (length pat) (c # cs)"
      using append_take_drop_id [of "length pat" "c # cs"] h by simp
    with Cons.prems show False by blast
  qed
  have "indexOf cs pat = - 1"
  proof (rule Cons.IH)
    fix pre suf
    show "cs \<noteq> pre @ pat @ suf"
      using Cons.prems [of "c # pre" suf] by simp
  qed
  with no_head show ?case by (simp add: Let_def)
qed

lemma indexOf_range: "indexOf s pat = - 1 \<or> 0 \<le> indexOf s pat"
  by (induction s) (auto simp: Let_def)

lemma indexOf_present:
  "indexOf s pat \<noteq> - 1 \<Longrightarrow> \<exists>pre suf. s = pre @ pat @ suf"
proof (induction s)
  case Nil
  then show ?case by (auto split: if_splits)
next
  case (Cons c cs)
  show ?case
  proof (cases "take (length pat) (c # cs) = pat")
    case True
    have "c # cs = [] @ pat @ drop (length pat) (c # cs)"
      using append_take_drop_id [of "length pat" "c # cs"] True by simp
    then show ?thesis by blast
  next
    case False
    with Cons.prems have "indexOf cs pat \<noteq> - 1"
      by (auto simp: Let_def split: if_splits)
    from Cons.IH [OF this] obtain pre suf where "cs = pre @ pat @ suf" by blast
    then have "c # cs = (c # pre) @ pat @ suf" by simp
    then show ?thesis by blast
  qed
qed

lemma indexOf_occurs: "indexOf (pre @ pat @ suf) pat \<noteq> - 1"
proof (induction pre)
  case Nil
  have "indexOf (pat @ suf) pat = 0"
    using indexOf_first [of "[]" pat suf] by simp
  then show ?case by simp
next
  case (Cons c pre)
  with indexOf_range [of "pre @ pat @ suf" pat] show ?case
    by (auto simp: Let_def)
qed

lemma indexOf_le: "indexOf (pre @ pat @ suf) pat \<le> int (length pre)"
proof (induction pre)
  case Nil
  show ?case using indexOf_first [of "[]" pat suf] by simp
next
  case (Cons c pre)
  then show ?case by (auto simp: Let_def)
qed

lemma str_includes_iff: "str_includes s pat \<longleftrightarrow> (\<exists>pre suf. s = pre @ pat @ suf)"
  unfolding str_includes_def using indexOf_occurs indexOf_present [of s pat] by blast

section \<open>Claims about the ARN helpers\<close>

text \<open>
  C7. For every string that contains the marker \<open>loadbalancer/\<close>, \<open>extractAlbDimension\<close>
  (the spec's \<open>dimensionOf\<close>) returns exactly what follows the first occurrence of the
  marker; for every string that does not contain it, the input comes back unchanged.
  The function is total: it has no failing branch.
\<close>

theorem extractAlbDimension_spec:
  "(\<forall>pre suf. s = pre @ ''loadbalancer/'' @ suf \<and>
       (\<forall>p' s'. s = p' @ ''loadbalancer/'' @ s' \<longrightarrow> length pre \<le> length p')
       \<longrightarrow> extractAlbDimension s = suf)
   \<and> ((\<nexists>pre suf. s = pre @ ''loadbalancer/'' @ suf) \<longrightarrow> extractAlbDimension s = s)"
proof (intro conjI allI impI)
  fix pre suf
  assume h: "s = pre @ ''loadbalancer/'' @ suf \<and>
       (\<forall>p' s'. s = p' @ ''loadbalancer/'' @ s' \<longrightarrow> length pre \<le> length p')"
  then have "indexOf (pre @ ''loadbalancer/'' @ suf) ''loadbalancer/'' = int (length pre)"
    by (intro indexOf_first) blast
  with h show "extractAlbDimension s = suf"
    by (simp add: extractAlbDimension_def substring_def nat_add_distrib)
next
  assume "\<nexists>pre suf. s = pre @ ''loadbalancer/'' @ suf"
  then have "indexOf s ''loadbalancer/'' = - 1"
    by (intro indexOf_absent) blast
  then show "extractAlbDimension s = s"
    by (simp add: extractAlbDimension_def)
qed

theorem extractAlbDimension_spec_witness:
  "extractAlbDimension ''arn:aws:elasticloadbalancing:us-east-1:1:loadbalancer/app/web/abc''
     = ''app/web/abc''
   \<and> extractAlbDimension ''arn:aws:ecs:us-east-1:1:service/prod/api''
     = ''arn:aws:ecs:us-east-1:1:service/prod/api''"
proof
  let ?s = "''arn:aws:elasticloadbalancing:us-east-1:1:loadbalancer/app/web/abc''"
  let ?pre = "''arn:aws:elasticloadbalancing:us-east-1:1:''"
  have idx: "indexOf ?s ''loadbalancer/'' = 41" by simp
  have first: "\<forall>p' s'. ?s = p' @ ''loadbalancer/'' @ s' \<longrightarrow> length ?pre \<le> length p'"
  proof (intro allI impI)
    fix p' s' assume h: "?s = p' @ ''loadbalancer/'' @ s'"
    have "indexOf (p' @ ''loadbalancer/'' @ s') ''loadbalancer/'' \<le> int (length p')"
      by (rule indexOf_le)
    with h [symmetric] idx have "41 \<le> int (length p')" by simp
    then show "length ?pre \<le> length p'" by simp
  qed
  have "?s = ?pre @ ''loadbalancer/'' @ ''app/web/abc''" by simp
  with first extractAlbDimension_spec [of ?s]
  show "extractAlbDimension ?s = ''app/web/abc''" by blast
next
  let ?t = "''arn:aws:ecs:us-east-1:1:service/prod/api''"
  have "\<not> str_includes ?t ''loadbalancer/''"
    by (simp add: str_includes_def)
  then have "\<nexists>pre suf. ?t = pre @ ''loadbalancer/'' @ suf"
    unfolding str_includes_iff .
  with extractAlbDimension_spec [of ?t]
  show "extractAlbDimension ?t = ?t" by blast
qed

section \<open>The grouping, one mapping at a time and as a whole\<close>

lemma groupStep_skip:
  assumes "arn_of m = []"
  shows "groupStep k cl m = Inr cl"
  using assms by (auto simp: groupStep_def arn_of_def split: option.splits)

lemma groupStep_proto:
  assumes "own_only cl" "ResourceARN m = Some a" "a \<noteq> []"
    and "clusterNameOf k m \<in> set Object_prototype_keys"
  shows "groupStep k cl m = (if is_service a \<or> is_alb a then Inl TypeError else Inr cl)"
proof -
  have none: "map_of cl (clusterNameOf k m) = None"
    using assms(1,4) by (simp add: own_only_def)
  have truthy: "prop_truthy cl (clusterNameOf k m)"
    using assms(4) by (simp add: prop_truthy_def)
  show ?thesis
    using assms(2,3) none truthy
    by (simp add: groupStep_def Let_def is_service_def is_alb_def)
qed

lemma groupStep_own:
  assumes "ResourceARN m = Some a" "a \<noteq> []"
    and "clusterNameOf k m \<notin> set Object_prototype_keys"
  shows "\<exists>cl1. groupStep k cl m = Inr cl1 \<and>
           map_of cl1 = (map_of cl)(clusterNameOf k m \<mapsto>
               bucket_add a
                 (case map_of cl (clusterNameOf k m) of
                    None \<Rightarrow> \<lparr> clusterName = clusterNameOf k m, ecsServices = [], albs = [] \<rparr>
                  | Some g \<Rightarrow> g))"
proof (cases "map_of cl (clusterNameOf k m)")
  case None
  then have "\<not> prop_truthy cl (clusterNameOf k m)"
    using assms(3) by (simp add: prop_truthy_def)
  then show ?thesis
    using assms(1,2) None
    by (simp add: groupStep_def Let_def is_service_def is_alb_def bucket_add_def update_conv')
next
  case (Some g)
  then have "prop_truthy cl (clusterNameOf k m)"
    by (simp add: prop_truthy_def)
  then show ?thesis
    using assms(1,2) Some
    by (simp add: groupStep_def Let_def is_service_def is_alb_def bucket_add_def update_conv' map_upd_triv)
qed

lemma own_only_upd:
  "own_only cl \<Longrightarrow> c \<notin> set Object_prototype_keys \<Longrightarrow> map_of cl1 = (map_of cl)(c \<mapsto> g)
   \<Longrightarrow> own_only cl1"
  by (auto simp: own_only_def)

lemma groupStep_cases:
  assumes "own_only cl"
  shows "(throws k m \<and> groupStep k cl m = Inl TypeError) \<or>
         (\<not> throws k m \<and> (\<exists>cl1. groupStep k cl m = Inr cl1 \<and> own_only cl1 \<and>
             map_of cl1 = step_map k m (map_of cl)))"
proof (cases "arn_of m = []")
  case True
  then show ?thesis
    using assms groupStep_skip [OF True, of k cl]
    by (simp add: throws_def step_map_def grouped_def)
next
  case False
  then obtain a where a: "ResourceARN m = Some a" "a \<noteq> []" "arn_of m = a"
    by (auto simp: arn_of_def split: option.splits)
  show ?thesis
  proof (cases "clusterNameOf k m \<in> set Object_prototype_keys")
    case True
    from groupStep_proto [OF assms a(1,2) True] a True assms
    show ?thesis
      by (simp add: throws_def step_map_def grouped_def)
  next
    case notin: False
    from groupStep_own [OF a(1,2) notin, of cl] obtain cl1 where
      cl1: "groupStep k cl m = Inr cl1"
        "map_of cl1 = (map_of cl)(clusterNameOf k m \<mapsto>
               bucket_add a
                 (case map_of cl (clusterNameOf k m) of
                    None \<Rightarrow> \<lparr> clusterName = clusterNameOf k m, ecsServices = [], albs = [] \<rparr>
                  | Some g \<Rightarrow> g))"
      by blast
    have "own_only cl1" using own_only_upd [OF assms notin cl1(2)] .
    with cl1 a notin show ?thesis
      by (simp add: throws_def step_map_def grouped_def)
  qed
qed


lemma groupLoop_cases:
  assumes "own_only cl"
  shows "((\<exists>m\<in>set ms. throws k m) \<and> groupLoop k ms cl = Inl TypeError) \<or>
         ((\<forall>m\<in>set ms. \<not> throws k m) \<and>
          (\<exists>cl'. groupLoop k ms cl = Inr cl' \<and>
                 map_of cl' = fold (step_map k) ms (map_of cl)))"
  using assms
proof (induction ms arbitrary: cl)
  case Nil
  then show ?case by simp
next
  case (Cons m ms)
  from groupStep_cases [OF Cons.prems, of k m] show ?case
  proof (elim disjE conjE exE)
    assume "throws k m" "groupStep k cl m = Inl TypeError"
    then show ?thesis by simp
  next
    fix cl1
    assume h: "\<not> throws k m" "groupStep k cl m = Inr cl1" "own_only cl1"
      "map_of cl1 = step_map k m (map_of cl)"
    from Cons.IH [OF h(3)] h(1,2,4) show ?thesis by auto
  qed
qed

lemma fold_step_map:
  "fold (step_map k) ms M c =
     (case M c of
        Some g \<Rightarrow> Some (g\<lparr> ecsServices := ecsServices g @ services_in k c ms,
                          albs := albs g @ albs_in k c ms \<rparr>)
      | None \<Rightarrow>
          if c \<in> names_in k ms
          then Some \<lparr> clusterName = c, ecsServices = services_in k c ms,
                      albs = albs_in k c ms \<rparr>
          else None)"
proof (induction ms arbitrary: M)
  case Nil
  show ?case by (simp add: services_in_def albs_in_def names_in_def split: option.splits)
next
  case (Cons m ms)
  have names: "c \<in> names_in k (m # ms) \<longleftrightarrow>
      (grouped k m \<and> clusterNameOf k m = c) \<or> c \<in> names_in k ms"
    by (auto simp: names_in_def)
  show ?case
    unfolding fold_Cons comp_def Cons.IH names
    by (auto simp: step_map_def bucket_add_def services_in_def albs_in_def is_alb_def
             split: option.splits)
qed

lemma groupByCluster_cases:
  "((\<exists>m\<in>set ms. throws k m) \<and> groupByCluster ms k = Inl TypeError) \<or>
   ((\<forall>m\<in>set ms. \<not> throws k m) \<and>
    (\<exists>cl. groupByCluster ms k = Inr cl \<and>
       (\<forall>c. map_of cl c =
          (if c \<in> names_in k ms
           then Some \<lparr> clusterName = c, ecsServices = services_in k c ms,
                       albs = albs_in k c ms \<rparr>
           else None))))"
proof -
  have "own_only []" by (simp add: own_only_def)
  from groupLoop_cases [OF this, of ms k] show ?thesis
    unfolding groupByCluster_def by (auto simp: fold_step_map)
qed

section \<open>Claims about the grouping\<close>

lemma clusterNameOf_nonempty: "clusterNameOf k m \<noteq> []"
  by (simp add: clusterNameOf_def or_else_def Let_def split: option.splits)

lemma unknown_not_inherited: "''unknown'' \<notin> set Object_prototype_keys"
  by (simp add: Object_prototype_keys_def)

lemma groupByCluster_Inr:
  assumes "groupByCluster ms k = Inr cl"
  shows "map_of cl c =
          (if c \<in> names_in k ms
           then Some \<lparr> clusterName = c, ecsServices = services_in k c ms,
                       albs = albs_in k c ms \<rparr>
           else None)"
  using groupByCluster_cases [of ms k] assms by auto

lemma groupByCluster_Inr_no_throw:
  assumes "groupByCluster ms k = Inr cl" "m \<in> set ms"
  shows "\<not> throws k m"
  using groupByCluster_cases [of ms k] assms by auto

lemma mset_services_in: "mset ms = mset ms' \<Longrightarrow> mset (services_in k c ms) = mset (services_in k c ms')"
  by (simp add: services_in_def)

lemma mset_albs_in: "mset ms = mset ms' \<Longrightarrow> mset (albs_in k c ms) = mset (albs_in k c ms')"
  by (simp add: albs_in_def)

lemma names_in_perm: "mset ms = mset ms' \<Longrightarrow> names_in k ms = names_in k ms'"
  using mset_eq_setD [of ms ms'] by (simp add: names_in_def)

lemma dom_map_of_fst: "fst ` set cl = dom (map_of cl)"
  by (simp add: dom_map_of_conv_image_fst)

text \<open>
  C6. Grouping a mapping list and grouping any permutation of it agree: either both runs
  raise the same error, or both return, with the same set of cluster names and, for
  every cluster name, the same multiset of load-balancer identifiers and the same
  multiset of service identifiers.
\<close>

theorem groupByCluster_permutation:
  assumes "mset ms = mset ms'"
  shows "(\<exists>e. groupByCluster ms k = Inl e \<and> groupByCluster ms' k = Inl e) \<or>
         (\<exists>c1 c2. groupByCluster ms k = Inr c1 \<and> groupByCluster ms' k = Inr c2 \<and>
            fst ` set c1 = fst ` set c2 \<and>
            (\<forall>n. map_option (\<lambda>g. mset (albs g)) (map_of c1 n)
                   = map_option (\<lambda>g. mset (albs g)) (map_of c2 n) \<and>
                 map_option (\<lambda>g. mset (ecsServices g)) (map_of c1 n)
                   = map_option (\<lambda>g. mset (ecsServices g)) (map_of c2 n)))"
proof (cases "\<exists>m\<in>set ms. throws k m")
  case True
  moreover have "\<exists>m\<in>set ms'. throws k m"
    using True mset_eq_setD [OF assms] by simp
  ultimately show ?thesis
    using groupByCluster_cases [of ms k] groupByCluster_cases [of ms' k] by auto
next
  case False
  moreover have "\<not> (\<exists>m\<in>set ms'. throws k m)"
    using False mset_eq_setD [OF assms] by simp
  ultimately obtain c1 c2 where
    c: "groupByCluster ms k = Inr c1" "groupByCluster ms' k = Inr c2"
    using groupByCluster_cases [of ms k] groupByCluster_cases [of ms' k] by auto
  have m: "\<And>n. map_of c1 n =
          (if n \<in> names_in k ms
           then Some \<lparr> clusterName = n, ecsServices = services_in k n ms,
                       albs = albs_in k n ms \<rparr>
           else None)"
     "\<And>n. map_of c2 n =
          (if n \<in> names_in k ms
           then Some \<lparr> clusterName = n, ecsServices = services_in k n ms',
                       albs = albs_in k n ms' \<rparr>
           else None)"
    using groupByCluster_Inr [OF c(1)] groupByCluster_Inr [OF c(2)] names_in_perm [OF assms, of k]
    by simp_all
  have "dom (map_of c1) = dom (map_of c2)"
    by (auto simp: m dom_def)
  then have "fst ` set c1 = fst ` set c2"
    by (simp add: dom_map_of_fst)
  moreover have "\<forall>n. map_option (\<lambda>g. mset (albs g)) (map_of c1 n)
                   = map_option (\<lambda>g. mset (albs g)) (map_of c2 n) \<and>
                 map_option (\<lambda>g. mset (ecsServices g)) (map_of c1 n)
                   = map_option (\<lambda>g. mset (ecsServices g)) (map_of c2 n)"
    by (simp add: m mset_services_in [OF assms] mset_albs_in [OF assms])
  ultimately show ?thesis using c by blast
qed

lemmas group_eval =
  groupByCluster_def groupStep_def clusterNameOf_def or_else_def prop_truthy_def
  Object_prototype_keys_def str_includes_def Let_def

lemma scenario_grouping:
  "groupByCluster [scenario_service, scenario_alb] ''Cluster'' = Inr [(''prod'', scenario_group)]"
  by (simp add: group_eval scenario_service_def scenario_alb_def scenario_group_def)

lemma scenario_grouping_swapped:
  "groupByCluster [scenario_alb, scenario_service] ''Cluster'' = Inr [(''prod'', scenario_group)]"
  by (simp add: group_eval scenario_service_def scenario_alb_def scenario_group_def)

lemma scenario_grouping3:
  "groupByCluster [scenario_service, scenario_alb, scenario_worker] ''Cluster''
     = Inr [(''prod'', scenario_group\<lparr> ecsServices :=
               [''arn:aws:ecs:us-east-1:1:service/prod/api'',
                ''arn:aws:ecs:us-east-1:1:service/prod/worker''] \<rparr>)]"
  by (simp add: group_eval scenario_service_def scenario_alb_def scenario_worker_def
        scenario_group_def)

lemma scenario_grouping3_permuted:
  "groupByCluster [scenario_worker, scenario_service, scenario_alb] ''Cluster''
     = Inr [(''prod'', scenario_group\<lparr> ecsServices :=
               [''arn:aws:ecs:us-east-1:1:service/prod/worker'',
                ''arn:aws:ecs:us-east-1:1:service/prod/api''] \<rparr>)]"
  by (simp add: group_eval scenario_service_def scenario_alb_def scenario_worker_def
        scenario_group_def)

text \<open>The two orders below give different service lists and equal multisets.\<close>

theorem groupByCluster_permutation_witness:
  "mset [scenario_service, scenario_alb, scenario_worker]
     = mset [scenario_worker, scenario_service, scenario_alb] \<and>
   (\<exists>c1 c2. groupByCluster [scenario_service, scenario_alb, scenario_worker] ''Cluster'' = Inr c1 \<and>
      groupByCluster [scenario_worker, scenario_service, scenario_alb] ''Cluster'' = Inr c2 \<and>
      fst ` set c1 = {''prod''} \<and> fst ` set c2 = {''prod''} \<and>
      map_option ecsServices (map_of c1 ''prod'') \<noteq> map_option ecsServices (map_of c2 ''prod'') \<and>
      map_option (\<lambda>g. mset (albs g)) (map_of c1 ''prod'')
        = map_option (\<lambda>g. mset (albs g)) (map_of c2 ''prod'') \<and>
      map_option (\<lambda>g. mset (ecsServices g)) (map_of c1 ''prod'')
        = map_option (\<lambda>g. mset (ecsServices g)) (map_of c2 ''prod''))"
proof -
  have perm: "mset [scenario_service, scenario_alb, scenario_worker]
     = mset [scenario_worker, scenario_service, scenario_alb]"
    by (simp add: ac_simps)
  from groupByCluster_permutation [OF perm, of "''Cluster''"] perm
  show ?thesis
    by (simp add: scenario_grouping3 scenario_grouping3_permuted)
qed

lemma count_list_map_filter:
  "count_list (map f (filter P xs)) a = length (filter (\<lambda>x. P x \<and> f x = a) xs)"
  by (induction xs) auto

lemma not_includes_empty: "pat \<noteq> [] \<Longrightarrow> \<not> str_includes [] pat"
  by (simp add: str_includes_def)

text \<open>
  C9. The service test comes first: an identifier that carries both the service markers
  and the load-balancer markers is never in a load-balancer list of the grouping's
  result, and every mapping that carries it adds it once to the service list of that
  mapping's cluster.
\<close>

theorem classification_service_first:
  assumes "str_includes a '':ecs:''" and "str_includes a ''service/''"
    and "str_includes a '':elasticloadbalancing:''" and "str_includes a ''loadbalancer/''"
    and "groupByCluster ms k = Inr cl"
  shows "(\<forall>c g. map_of cl c = Some g \<longrightarrow>
            a \<notin> set (albs g) \<and>
            count_list (ecsServices g) a
              = length (filter (\<lambda>m. ResourceARN m = Some a \<and> clusterNameOf k m = c) ms))
         \<and> (\<forall>m\<in>set ms. ResourceARN m = Some a \<longrightarrow>
               (\<exists>g. map_of cl (clusterNameOf k m) = Some g \<and> a \<in> set (ecsServices g)))"
proof (intro conjI allI impI ballI)
  have svc: "is_service a" "\<not> is_alb a" using assms(1,2) by (simp_all add: is_service_def is_alb_def)
  have ne: "a \<noteq> []" using assms(1) not_includes_empty [of "'':ecs:''"] by auto
  have arn: "\<And>m. arn_of m = a \<longleftrightarrow> ResourceARN m = Some a"
    using ne by (auto simp: arn_of_def split: option.splits)
  {
    fix c g assume g: "map_of cl c = Some g"
    from g groupByCluster_Inr [OF assms(5), of c]
    have c: "c \<in> names_in k ms"
      and gdef: "g = \<lparr> clusterName = c, ecsServices = services_in k c ms, albs = albs_in k c ms \<rparr>"
      by (auto split: if_splits)
    from c have own: "c \<notin> set Object_prototype_keys"
      by (auto simp: names_in_def grouped_def)
    show "a \<notin> set (albs g)"
      using svc by (auto simp: gdef albs_in_def)
    have "count_list (ecsServices g) a
            = length (filter (\<lambda>m. (grouped k m \<and> clusterNameOf k m = c \<and> is_service (arn_of m))
                                  \<and> arn_of m = a) ms)"
      by (simp add: gdef services_in_def count_list_map_filter)
    also have "(\<lambda>m. (grouped k m \<and> clusterNameOf k m = c \<and> is_service (arn_of m)) \<and> arn_of m = a)
             = (\<lambda>m. ResourceARN m = Some a \<and> clusterNameOf k m = c)"
      using svc ne own by (auto simp: fun_eq_iff grouped_def arn_of_def split: option.splits)
    finally show "count_list (ecsServices g) a
              = length (filter (\<lambda>m. ResourceARN m = Some a \<and> clusterNameOf k m = c) ms)" .
  }
  {
    fix m assume m: "m \<in> set ms" "ResourceARN m = Some a"
    then have am: "arn_of m = a" by (simp add: arn)
    from groupByCluster_Inr_no_throw [OF assms(5) m(1)] am svc ne
    have gm: "grouped k m" by (auto simp: throws_def grouped_def)
    then have "clusterNameOf k m \<in> names_in k ms"
      using m(1) by (auto simp: names_in_def)
    with groupByCluster_Inr [OF assms(5), of "clusterNameOf k m"]
    have "map_of cl (clusterNameOf k m)
            = Some \<lparr> clusterName = clusterNameOf k m,
                     ecsServices = services_in k (clusterNameOf k m) ms,
                     albs = albs_in k (clusterNameOf k m) ms \<rparr>" by simp
    moreover have "a \<in> set (services_in k (clusterNameOf k m) ms)"
      using m(1) gm am svc by (force simp: services_in_def)
    ultimately show "\<exists>g. map_of cl (clusterNameOf k m) = Some g \<and> a \<in> set (ecsServices g)"
      by simp
  }
qed

lemma both_markers_grouping:
  "groupByCluster [both_markers_mapping] ''Cluster''
     = Inr [(''prod'', \<lparr> clusterName = ''prod'', ecsServices = [both_markers_arn], albs = [] \<rparr>)]"
  by (simp add: group_eval both_markers_mapping_def both_markers_arn_def)

text \<open>One identifier with all four markers, grouped.\<close>

theorem classification_service_first_witness:
  "str_includes both_markers_arn '':ecs:'' \<and> str_includes both_markers_arn ''service/'' \<and>
   str_includes both_markers_arn '':elasticloadbalancing:'' \<and>
   str_includes both_markers_arn ''loadbalancer/'' \<and>
   groupByCluster [both_markers_mapping] ''Cluster''
     = Inr [(''prod'', \<lparr> clusterName = ''prod'', ecsServices = [both_markers_arn], albs = [] \<rparr>)] \<and>
   both_markers_arn \<notin> set (albs \<lparr> clusterName = ''prod'', ecsServices = [both_markers_arn], albs = [] \<rparr>) \<and>
   count_list (ecsServices \<lparr> clusterName = ''prod'', ecsServices = [both_markers_arn], albs = [] \<rparr>)
     both_markers_arn = 1"
proof -
  have m: "str_includes both_markers_arn '':ecs:''" "str_includes both_markers_arn ''service/''"
    "str_includes both_markers_arn '':elasticloadbalancing:''"
    "str_includes both_markers_arn ''loadbalancer/''"
    by (simp_all add: both_markers_arn_def str_includes_def)
  from classification_service_first [OF m both_markers_grouping] m both_markers_grouping
  show ?thesis by simp
qed

text \<open>
  C5 says that a cluster tag whose value is the empty string puts the resource in a
  bucket keyed by the empty string. The source resolves the name with
  \<open>... .Value || "unknown"\<close>, and the empty string is falsy: the resource lands in the
  \<open>unknown\<close> bucket, and no bucket is keyed by the empty string.
\<close>

theorem empty_tag_value_counterexample:
  "groupByCluster [empty_value_mapping] ''Cluster''
     = Inr [(''unknown'',
             \<lparr> clusterName = ''unknown'',
               ecsServices = [''arn:aws:ecs:us-east-1:1:service/prod/api''], albs = [] \<rparr>)]"
  by (simp add: group_eval empty_value_mapping_def)

text \<open>
  C5, as the code has it: when the tag for the cluster tag key is present with the empty
  string as its value, the resource is placed in the bucket keyed \<open>unknown\<close> (the
  bucket of resources without the tag), in its service list or its load-balancer list
  according to its classification, and the grouping's result has no bucket keyed by the
  empty string.
\<close>

theorem empty_tag_value_grouped_as_unknown:
  assumes "groupByCluster ms k = Inr cl" and "m \<in> set ms"
    and "ResourceARN m = Some a" and "a \<noteq> []"
    and "Tags m = Some ts" and "find (\<lambda>t. Key t = k) ts = Some t" and "Value t = []"
  shows "map_of cl [] = None \<and>
         (\<exists>g. map_of cl ''unknown'' = Some g \<and>
              (is_service a \<longrightarrow> a \<in> set (ecsServices g)) \<and>
              (is_alb a \<longrightarrow> a \<in> set (albs g)))"
proof
  have "[] \<notin> names_in k ms"
  proof
    assume "[] \<in> names_in k ms"
    then obtain x where "[] = clusterNameOf k x" by (auto simp: names_in_def)
    with clusterNameOf_nonempty [of k x] show False by simp
  qed
  with groupByCluster_Inr [OF assms(1), of "[]"] show "map_of cl [] = None" by simp
next
  have name: "clusterNameOf k m = ''unknown''"
    using assms(5,6,7) by (simp add: clusterNameOf_def or_else_def)
  have am: "arn_of m = a" using assms(3) by (simp add: arn_of_def)
  have gm: "grouped k m"
    using name am assms(4) unknown_not_inherited by (simp add: grouped_def)
  then have "''unknown'' \<in> names_in k ms"
    using assms(2) name by (force simp: names_in_def)
  with groupByCluster_Inr [OF assms(1), of "''unknown''"]
  have "map_of cl ''unknown''
          = Some \<lparr> clusterName = ''unknown'', ecsServices = services_in k ''unknown'' ms,
                   albs = albs_in k ''unknown'' ms \<rparr>" by simp
  moreover have "is_service a \<longrightarrow> a \<in> set (services_in k ''unknown'' ms)"
    using assms(2) gm am name by (force simp: services_in_def)
  moreover have "is_alb a \<longrightarrow> a \<in> set (albs_in k ''unknown'' ms)"
    using assms(2) gm am name by (force simp: albs_in_def)
  ultimately show "\<exists>g. map_of cl ''unknown'' = Some g \<and>
              (is_service a \<longrightarrow> a \<in> set (ecsServices g)) \<and>
              (is_alb a \<longrightarrow> a \<in> set (albs g))" by simp
qed

text \<open>The mapping of the counterexample satisfies every hypothesis.\<close>

theorem empty_tag_value_grouped_as_unknown_witness:
  "groupByCluster [empty_value_mapping] ''Cluster''
     = Inr [(''unknown'',
             \<lparr> clusterName = ''unknown'',
               ecsServices = [''arn:aws:ecs:us-east-1:1:service/prod/api''], albs = [] \<rparr>)] \<and>
   is_service ''arn:aws:ecs:us-east-1:1:service/prod/api'' \<and>
   map_of [(''unknown'',
             \<lparr> clusterName = ''unknown'',
               ecsServices = [''arn:aws:ecs:us-east-1:1:service/prod/api''], albs = [] \<rparr>)] [] = None \<and>
   (\<exists>g. map_of [(''unknown'',
             \<lparr> clusterName = ''unknown'',
               ecsServices = [''arn:aws:ecs:us-east-1:1:service/prod/api''], albs = [] \<rparr>)] ''unknown'' = Some g \<and>
        ''arn:aws:ecs:us-east-1:1:service/prod/api'' \<in> set (ecsServices g))"
proof -
  let ?a = "''arn:aws:ecs:us-east-1:1:service/prod/api''"
  let ?cl = "[(''unknown'', \<lparr> clusterName = ''unknown'', ecsServices = [?a], albs = [] \<rparr>)]"
  have g: "groupByCluster [empty_value_mapping] ''Cluster'' = Inr ?cl"
    by (simp add: group_eval empty_value_mapping_def)
  have svc: "is_service ?a"
    by (simp add: is_service_def str_includes_def)
  have "map_of ?cl [] = None \<and>
         (\<exists>g. map_of ?cl ''unknown'' = Some g \<and>
              (is_service ?a \<longrightarrow> ?a \<in> set (ecsServices g)) \<and>
              (is_alb ?a \<longrightarrow> ?a \<in> set (albs g)))"
    by (rule empty_tag_value_grouped_as_unknown
          [OF g, of empty_value_mapping ?a "[\<lparr> Key = ''Cluster'', Value = [] \<rparr>]"
             "\<lparr> Key = ''Cluster'', Value = [] \<rparr>"])
       (simp_all add: empty_value_mapping_def)
  with g svc show ?thesis by simp
qed

section \<open>The layout of the two builders\<close>

lemma Suc_mod3_wrap: "k mod 3 = 2 \<Longrightarrow> Suc k mod 3 = 0 \<and> Suc k div 3 = Suc (k div 3)"
  by presburger

lemma Suc_mod3_step: "k mod 3 \<noteq> 2 \<Longrightarrow> Suc k mod 3 = Suc (k mod 3) \<and> Suc k div 3 = k div 3"
  by presburger

lemma serviceLoop_from:
  "serviceLoop mk width height svcs
     (width * (k mod 3), y0 + height * (k div 3), k mod 3, ws)
   = (width * ((k + length svcs) mod 3), y0 + height * ((k + length svcs) div 3),
      (k + length svcs) mod 3,
      ws @ map (\<lambda>(s, i). mk s (width * (i mod 3)) (y0 + height * (i div 3)))
              (zip svcs [k..<k + length svcs]))"
proof (induction svcs arbitrary: k ws)
  case Nil
  show ?case by simp
next
  case (Cons s rest)
  have upt: "[k..<k + length (s # rest)] = k # [Suc k..<Suc k + length rest]"
  proof -
    have "k < Suc k + length rest" by simp
    from upt_conv_Cons [OF this] show ?thesis
      by (simp only: length_Cons add_Suc_right add_Suc)
  qed
  let ?w = "mk s (width * (k mod 3)) (y0 + height * (k div 3))"
  have step: "serviceLoop mk width height (s # rest)
                (width * (k mod 3), y0 + height * (k div 3), k mod 3, ws)
              = serviceLoop mk width height rest
                  (width * (Suc k mod 3), y0 + height * (Suc k div 3), Suc k mod 3, ws @ [?w])"
  proof (cases "k mod 3 = 2")
    case True
    with Suc_mod3_wrap [OF True] show ?thesis by (simp add: Let_def ac_simps)
  next
    case False
    with Suc_mod3_step [OF False] show ?thesis by (simp add: Let_def ac_simps)
  qed
  have len: "k + length (s # rest) = Suc k + length rest" by simp
  have zip: "zip (s # rest) [k..<Suc k + length rest]
             = (s, k) # zip rest [Suc k..<Suc k + length rest]"
    using upt by (simp only: len zip_Cons_Cons)
  show ?case
    unfolding step Cons.IH len zip by (simp del: upt_Suc)
qed

lemma serviceLoop_start:
  "serviceLoop mk width height svcs (0, y0, 0, ws)
   = (width * (length svcs mod 3), y0 + height * (length svcs div 3), length svcs mod 3,
      ws @ map (\<lambda>(s, i). mk s (width * (i mod 3)) (y0 + height * (i div 3)))
              (zip svcs [0..<length svcs]))"
  using serviceLoop_from [of mk width height svcs 0 y0 ws] by simp

lemma origins_of_block:
  assumes "\<And>s x y. origin (mk s x y) = (x, y)"
  shows "map (origin \<circ> (\<lambda>(s, i). mk s (width * (i mod 3)) (y0 + height * (i div 3))))
           (zip svcs [0..<length svcs])
         = map (grid_cell width height y0) [0..<length svcs]"
proof -
  have "map (origin \<circ> (\<lambda>(s, i). mk s (width * (i mod 3)) (y0 + height * (i div 3))))
           (zip svcs [0..<length svcs])
        = map (grid_cell width height y0 \<circ> snd) (zip svcs [0..<length svcs])"
    by (rule map_cong) (auto simp: assms grid_cell_def)
  also have "\<dots> = map (grid_cell width height y0) (map snd (zip svcs [0..<length svcs]))"
    by (simp only: map_map)
  also have "map snd (zip svcs [0..<length svcs]) = [0..<length svcs]"
    by (rule map_snd_zip) simp
  finally show ?thesis .
qed

lemma origins_of_first_block:
  assumes "\<And>s x y. origin (mk s x y) = (x, y)"
  shows "map (origin \<circ> (\<lambda>(s, i). mk s (width * (i mod 3)) (height * (i div 3))))
           (zip svcs [0..<length svcs])
         = map (grid_cell width height 0) [0..<length svcs]"
  using origins_of_block [of mk width 0 height svcs, OF assms] by simp

lemma grid_cell_inj:
  assumes "0 < width" "0 < height" "grid_cell width height y0 i = grid_cell width height y0 j"
  shows "i = j"
proof -
  from assms have "i mod 3 = j mod 3" "i div 3 = j div 3"
    by (simp_all add: grid_cell_def)
  then show ?thesis by (metis div_mult_mod_eq)
qed

lemma distinct_grid:
  "0 < width \<Longrightarrow> 0 < height \<Longrightarrow> distinct (map (grid_cell width height y0) [0..<n])"
  by (auto simp: distinct_map inj_on_def dest: grid_cell_inj)

lemma grid_rows:
  assumes "c \<in> set (map (grid_cell width height y0) [0..<n])"
  shows "y0 \<le> snd c \<and> snd c \<le> y0 + height * (n div 3)"
proof -
  from assms obtain i where i: "i < n" "c = grid_cell width height y0 i" by auto
  from i(1) have "i div 3 \<le> n div 3" by (simp add: div_le_mono)
  then have "height * (i div 3) \<le> height * (n div 3)" by simp
  with i(2) show ?thesis by (simp add: grid_cell_def)
qed

lemma origin_cpuMemWidget: "origin (cpuMemWidget cfg width height s x y) = (x, y)"
  by (simp add: cpuMemWidget_def origin_def Let_def)

lemma origin_tasksWidget: "origin (tasksWidget cfg width height s x y) = (x, y)"
  by (simp add: tasksWidget_def origin_def Let_def)

lemma developer_origins:
  "map origin (buildDeveloperWidgets cfg r)
   = map (grid_cell 8 6 0) [0..<length (ecsServices r)]
     @ (if 0 < length (ecsServices r)
        then map (grid_cell 8 6 (6 * (length (ecsServices r) div 3) + 6))
               [0..<length (ecsServices r)]
        else [])
     @ (if 0 < length (albs r)
        then (let y = (if 0 < length (ecsServices r)
                       then 6 * (length (ecsServices r) div 3) + 6
                              + 6 * (length (ecsServices r) div 3)
                       else 0)
              in [(0, y + 6), (12, y + 6)])
        else [])"
  unfolding buildDeveloperWidgets_def Let_def serviceLoop_start
  by (simp add: case_prod_beta origins_of_first_block [of "cpuMemWidget cfg 8 6", OF origin_cpuMemWidget]
        origins_of_block [of "tasksWidget cfg 8 6", OF origin_tasksWidget] origin_def
      del: upt_Suc)

lemma executive_origins_distinct: "distinct (map origin (buildExecutiveWidgets cfg r))"
  by (simp add: buildExecutiveWidgets_def origin_def Let_def)

lemma developer_origins_distinct: "distinct (map origin (buildDeveloperWidgets cfg r))"
proof (cases "ecsServices r = []")
  case True
  then show ?thesis by (simp add: developer_origins Let_def)
next
  case False
  define n where "n = length (ecsServices r)"
  define y1 where "y1 = 6 * (n div 3) + 6"
  define y2 where "y2 = y1 + 6 * (n div 3) + 6"
  define A where "A = map (grid_cell 8 6 0) [0..<n]"
  define B where "B = map (grid_cell 8 6 y1) [0..<n]"
  define C where "C = (if 0 < length (albs r) then [(0, y2), (12::nat, y2)] else [])"
  have eq: "map origin (buildDeveloperWidgets cfg r) = A @ B @ C"
    using False by (simp add: developer_origins Let_def A_def B_def C_def y1_def y2_def n_def)
  have dA: "distinct A" unfolding A_def by (rule distinct_grid) simp_all
  have dB: "distinct B" unfolding B_def by (rule distinct_grid) simp_all
  have dC: "distinct C" by (simp add: C_def)
  have rowsA: "snd c < y1" if "c \<in> set A" for c
    using grid_rows [of c 8 6 0 n] that unfolding A_def y1_def by simp
  have rowsB: "y1 \<le> snd c \<and> snd c < y2" if "c \<in> set B" for c
    using grid_rows [of c 8 6 y1 n] that unfolding B_def y2_def by simp
  have rowsC: "snd c = y2" if "c \<in> set C" for c
    using that by (auto simp: C_def split: if_splits)
  have AB: "set A \<inter> set B = {}"
  proof (rule ccontr)
    assume "set A \<inter> set B \<noteq> {}"
    then obtain c where "c \<in> set A" "c \<in> set B" by blast
    with rowsA [of c] rowsB [of c] show False by simp
  qed
  have AC: "set A \<inter> set C = {}"
  proof (rule ccontr)
    assume "set A \<inter> set C \<noteq> {}"
    then obtain c where "c \<in> set A" "c \<in> set C" by blast
    with rowsA [of c] rowsC [of c] show False by (simp add: y2_def)
  qed
  have BC: "set B \<inter> set C = {}"
  proof (rule ccontr)
    assume "set B \<inter> set C \<noteq> {}"
    then obtain c where "c \<in> set B" "c \<in> set C" by blast
    with rowsB [of c] rowsC [of c] show False by simp
  qed
  have "distinct (A @ B @ C)"
    using dA dB dC AB AC BC by (simp only: distinct_append set_append Int_Un_distrib Un_empty simp_thms)
  then show ?thesis by (simp only: eq)
qed

text \<open>
  C4. For every cluster group, empty lists included, no two widgets of the executive
  builder's sequence have the same \<open>(x, y)\<close> origin, and no two widgets of the
  developer builder's sequence have the same \<open>(x, y)\<close> origin.
\<close>

theorem layout_origins_distinct:
  "distinct (map origin (buildExecutiveWidgets cfg r))
   \<and> distinct (map origin (buildDeveloperWidgets cfg r))"
  using executive_origins_distinct developer_origins_distinct by blast

section \<open>Claims about what the builders emit\<close>










lemma alb_dimension_scenario:
  "extractAlbDimension ''arn:aws:elasticloadbalancing:us-east-1:1:loadbalancer/app/web/abc''
   = ''app/web/abc''"
  by (simp add: extractAlbDimension_def substring_def)

text \<open>
  C1 asks for a TLS-negotiation-error widget at \<open>(0, 0)\<close> and an aggregate task widget
  at \<open>(0, 6)\<close> at the head of the developer builder's sequence. The source builds both
  and drops them. For a group with one load balancer and no service the sequence is the
  trailing pair alone.
\<close>

theorem developer_builder_alb_only:
  "buildDeveloperWidgets cfg alb_only_group =
     [\<lparr> w_type = ''metric'', w_x = 0, w_y = 6, w_width = 12, w_height = 6,
        w_properties =
          \<lparr> p_region = REGION cfg, p_view = ''timeSeries'', p_period = 60,
            p_stat = None, p_stacked = None,
            p_title = ''prod '' @ en_dash @ '' ALB Errors'',
            p_metrics =
              [[Str ''AWS/ApplicationELB'', Str ''HTTPCode_Target_4XX_Count'',
                Str ''LoadBalancer'', Str ''app/web/abc''],
               [Str ''.'', Str ''HTTPCode_Target_5XX_Count'', Str ''.'', Str ''.'']] \<rparr> \<rparr>,
      \<lparr> w_type = ''metric'', w_x = 12, w_y = 6, w_width = 12, w_height = 6,
        w_properties =
          \<lparr> p_region = REGION cfg, p_view = ''timeSeries'', p_period = 60,
            p_stat = None, p_stacked = None,
            p_title = ''prod '' @ en_dash @ '' ALB Latency (p95)'',
            p_metrics =
              [[Str ''AWS/ApplicationELB'', Str ''TargetResponseTime'',
                Str ''LoadBalancer'', Str ''app/web/abc'', StatOption ''p95'']] \<rparr> \<rparr>]"
  by (simp add: buildDeveloperWidgets_def alb_only_group_def Let_def alb_dimension_scenario)

text \<open>
  C2 expects six widgets for scenario B. Grouping gives the one cluster \<open>prod\<close>, and
  the developer builder gives four widgets for it: the two per-service widgets and the
  trailing pair.
\<close>

theorem developer_builder_scenario_B:
  "groupByCluster [scenario_service, scenario_alb] ''Cluster'' = Inr [(''prod'', scenario_group)]
   \<and> map (\<lambda>w. (w_x w, w_y w, w_width w, w_height w, p_title (w_properties w)))
     (buildDeveloperWidgets cfg scenario_group)
   = [(0, 0, 8, 6, ''Service '' @ en_dash @ '' api CPU & Memory''),
      (0, 6, 8, 6, ''Service '' @ en_dash @ '' api Tasks''),
      (0, 12, 12, 6, ''prod '' @ en_dash @ '' ALB Errors''),
      (12, 12, 12, 6, ''prod '' @ en_dash @ '' ALB Latency (p95)'')]
   \<and> length (buildDeveloperWidgets cfg scenario_group) = 4"
  by (simp add: scenario_grouping)
     (simp add: buildDeveloperWidgets_def scenario_group_def Let_def cpuMemWidget_def
        tasksWidget_def extractClusterAndService_def at_index_def or_else_def)

text \<open>
  For every group: each widget of the developer builder's sequence has no \<open>stat\<close>,
  while the TLS widget and the aggregate task widget both have \<open>stat = Sum\<close>. Neither
  is ever part of the sequence.
\<close>

lemma developer_widgets_no_stat:
  "w \<in> set (buildDeveloperWidgets cfg r) \<Longrightarrow> p_stat (w_properties w) = None"
  unfolding buildDeveloperWidgets_def Let_def serviceLoop_start
  by (auto simp: case_prod_beta cpuMemWidget_def tasksWidget_def Let_def
           split: if_splits dest!: set_zip_leftD)

section \<open>Discovery and the handler\<close>

lemma listLoop_pages:
  "pages_served tagging tagKey tagValue token w pages \<Longrightarrow>
   listLoop tagging tagKey tagValue out token w
   = Some (Inr (out @ concat (map page_mappings pages)),
           w\<lparr> requests := requests w
                  @ map (page_request tagKey tagValue)
                      (token # map resp_PaginationToken (butlast pages)) \<rparr>)"
proof (induction pages arbitrary: token w out)
  case Nil
  then show ?case by simp
next
  case (Cons resp rest)
  from Cons.prems have served: "tagging w (page_request tagKey tagValue token) = Inr resp"
    by simp
  have out: "(case ResourceTagMappingList resp of None \<Rightarrow> out | Some l \<Rightarrow> out @ l)
             = out @ page_mappings resp"
    by (simp add: page_mappings_def split: option.splits)
  show ?case
  proof (cases "token_truthy (resp_PaginationToken resp)")
    case True
    with Cons.prems have rest: "pages_served tagging tagKey tagValue (resp_PaginationToken resp)
        (w\<lparr> requests := requests w @ [page_request tagKey tagValue token] \<rparr>) rest"
      by simp
    then have "rest \<noteq> []" by (cases rest) simp_all
    with Cons.IH [OF rest, of "out @ page_mappings resp"] served True out
    show ?thesis
      by (subst listLoop.simps)
         (simp add: tagging_send_def page_request_def [symmetric] Let_def)
  next
    case False
    with Cons.prems have "rest = []" by simp
    with served False out show ?thesis
      by (subst listLoop.simps)
         (simp add: tagging_send_def page_request_def [symmetric] Let_def)
  qed
qed

text \<open>
  C8. For every tag key and tag value: when the tagging service answers the first
  request (no token) and then each request that carries the token of the previous
  response, \<open>listTaggedResources\<close> returns, and it returns the concatenation of the
  pages' mappings in arrival order. The requests it has sent are exactly these, each
  with the one filter \<open>Key = tagKey, Values = [tagValue]\<close> and 50 resources per page. It
  goes on while the response carries a token and stops at the first response that
  carries none (an empty token counts as none). A page with no mappings is a page like
  any other: nothing is appended and the loop continues with its token.
\<close>

theorem listTaggedResources_follows_tokens:
  assumes "pages_served tagging tagKey tagValue None w pages"
  shows "listTaggedResources tagging tagKey tagValue w
         = Some (Inr (concat (map page_mappings pages)),
                 w\<lparr> requests := requests w
                        @ map (page_request tagKey tagValue)
                            (None # map resp_PaginationToken (butlast pages)) \<rparr>)"
  unfolding listTaggedResources_def
  using listLoop_pages [OF assms, of "[]"] by simp

text \<open>Three pages, the second without mappings.\<close>

theorem listTaggedResources_follows_tokens_witness:
  "pages_served three_page_tagging ''Cluster'' ''prod'' None empty_world
     [\<lparr> ResourceTagMappingList = Some [scenario_service], resp_PaginationToken = Some ''t1'' \<rparr>,
      \<lparr> ResourceTagMappingList = Some [], resp_PaginationToken = Some ''t2'' \<rparr>,
      \<lparr> ResourceTagMappingList = Some [scenario_alb], resp_PaginationToken = None \<rparr>]
   \<and> listTaggedResources three_page_tagging ''Cluster'' ''prod'' empty_world
       = Some (Inr [scenario_service, scenario_alb],
               \<lparr> requests = [page_request ''Cluster'' ''prod'' None,
                              page_request ''Cluster'' ''prod'' (Some ''t1''),
                              page_request ''Cluster'' ''prod'' (Some ''t2'')],
                 dashboards = [], console = [] \<rparr>)"
proof -
  let ?pages = "[\<lparr> ResourceTagMappingList = Some [scenario_service], resp_PaginationToken = Some ''t1'' \<rparr>,
      \<lparr> ResourceTagMappingList = Some [], resp_PaginationToken = Some ''t2'' \<rparr>,
      \<lparr> ResourceTagMappingList = Some [scenario_alb], resp_PaginationToken = None \<rparr>]"
  have served: "pages_served three_page_tagging ''Cluster'' ''prod'' None empty_world ?pages"
    by (simp add: three_page_tagging_def page_request_def token_truthy_def)
  have "listTaggedResources three_page_tagging ''Cluster'' ''prod'' empty_world
       = Some (Inr [scenario_service, scenario_alb],
               \<lparr> requests = [page_request ''Cluster'' ''prod'' None,
                              page_request ''Cluster'' ''prod'' (Some ''t1''),
                              page_request ''Cluster'' ''prod'' (Some ''t2'')],
                 dashboards = [], console = [] \<rparr>)"
    using listTaggedResources_follows_tokens [OF served]
    by (simp add: page_mappings_def empty_world_def)
  with served show ?thesis by (rule conjI)
qed

lemma handlerLoop_append:
  "handlerLoop cfg cloudwatch clusters (xs @ ys) w
   = (case handlerLoop cfg cloudwatch clusters xs w of
        (Inl e, w') \<Rightarrow> (Inl e, w')
      | (Inr u, w') \<Rightarrow> handlerLoop cfg cloudwatch clusters ys w')"
  by (induction xs arbitrary: w) (auto simp: Let_def split: option.splits prod.splits sum.splits)

lemma set_Object_keys: "set (Object_keys clusters) = fst ` set clusters"
  by (auto simp: Object_keys_def)

lemma published_Cons:
  "published cfg clusters (k # ks) w = published cfg clusters ks (published cfg clusters [k] w)"
  by (simp add: published_def)

lemma handlerLoop_accepted:
  assumes "\<forall>k\<in>set ks. map_of clusters k \<noteq> None"
    and "accepts_all cloudwatch cfg clusters ks w"
  shows "handlerLoop cfg cloudwatch clusters ks w = (Inr (), published cfg clusters ks w)"
  using assms
proof (induction ks arbitrary: w)
  case Nil
  show ?case by (simp add: published_def)
next
  case (Cons k ks)
  from Cons.prems(1) obtain r where r: "map_of clusters k = Some r" by auto
  from Cons.prems(2) have
    ex: "cloudwatch w (exec_command cfg clusters k) = None" and
    dv: "cloudwatch (exec_published cfg clusters k w) (dev_command cfg clusters k) = None" and
    rest: "accepts_all cloudwatch cfg clusters ks (published cfg clusters [k] w)"
    by simp_all
  have "handlerLoop cfg cloudwatch clusters (k # ks) w
        = handlerLoop cfg cloudwatch clusters ks (published cfg clusters [k] w)"
    using ex dv
    by (simp add: r putDashboard_def Let_def published_def exec_published_def
          exec_command_def dev_command_def)
  also have "\<dots> = (Inr (), published cfg clusters ks (published cfg clusters [k] w))"
    using Cons.IH [OF _ rest] Cons.prems(1) by simp
  finally show ?case by (simp only: published_Cons [symmetric])
qed

lemma handlerLoop_exec_rejected:
  assumes "map_of clusters c \<noteq> None"
    and "cloudwatch w (exec_command cfg clusters c) = Some e"
  shows "handlerLoop cfg cloudwatch clusters (c # rest) w = (Inl e, w)"
  using assms by (auto simp: putDashboard_def exec_command_def Let_def)

lemma handlerLoop_dev_rejected:
  assumes "map_of clusters c \<noteq> None"
    and "cloudwatch w (exec_command cfg clusters c) = None"
    and "cloudwatch (exec_published cfg clusters c w) (dev_command cfg clusters c) = Some e"
  shows "handlerLoop cfg cloudwatch clusters (c # rest) w
         = (Inl e, exec_published cfg clusters c w)"
  using assms
  by (auto simp: putDashboard_def exec_command_def dev_command_def exec_published_def Let_def)

lemma own_keys:
  assumes "Object_keys clusters = ks"
  shows "\<forall>k\<in>set ks. map_of clusters k \<noteq> None"
proof
  fix k assume "k \<in> set ks"
  then have "k \<in> fst ` set clusters" using assms set_Object_keys [of clusters] by simp
  then show "map_of clusters k \<noteq> None"
    by (metis domIff dom_map_of_conv_image_fst)
qed

text \<open>
  C3, as the code has it: a publish failure is not caught. Let the service accept both
  dashboards of every cluster before \<open>c\<close> in iteration order. When it then rejects the
  executive dashboard of \<open>c\<close>, the handler ends with that error in the world that
  holds the dashboards of the clusters before \<open>c\<close> and nothing else; when it accepts
  the executive dashboard and rejects the developer dashboard of \<open>c\<close>, the handler
  ends with that error in that world plus the executive dashboard of \<open>c\<close>. In both
  cases no dashboard of a cluster after \<open>c\<close> is published and no cluster after \<open>c\<close>
  is processed.
\<close>

theorem publish_failure_ends_the_run:
  assumes "listTaggedResources tagging (CLUSTER_TAG_KEY cfg) (TAG_VALUE cfg) w
             = Some (Inr mappings, w0)"
    and "groupByCluster mappings (CLUSTER_TAG_KEY cfg) = Inr clusters"
    and "Object_keys clusters = before @ c # after"
    and "accepts_all cloudwatch cfg clusters before w0"
  shows "(cloudwatch (published cfg clusters before w0) (exec_command cfg clusters c) = Some e
          \<longrightarrow> handler cfg tagging cloudwatch w
                = Some (Inl e, published cfg clusters before w0))
       \<and> (cloudwatch (published cfg clusters before w0) (exec_command cfg clusters c) = None
          \<and> cloudwatch (exec_published cfg clusters c (published cfg clusters before w0))
                (dev_command cfg clusters c) = Some e
          \<longrightarrow> handler cfg tagging cloudwatch w
                = Some (Inl e, exec_published cfg clusters c (published cfg clusters before w0)))"
proof -
  let ?w1 = "published cfg clusters before w0"
  from own_keys [OF assms(3)] have
    own_before: "\<forall>k\<in>set before. map_of clusters k \<noteq> None" and
    own_c: "map_of clusters c \<noteq> None"
    by simp_all
  have before: "handlerLoop cfg cloudwatch clusters before w0 = (Inr (), ?w1)"
    by (rule handlerLoop_accepted [OF own_before assms(4)])
  have loop: "handlerLoop cfg cloudwatch clusters (before @ c # after) w0
              = handlerLoop cfg cloudwatch clusters (c # after) ?w1"
    by (simp add: handlerLoop_append before)
  have run: "handler cfg tagging cloudwatch w = Some (Inl e, w2)"
    if "handlerLoop cfg cloudwatch clusters (c # after) ?w1 = (Inl e, w2)" for w2
    using that assms(1,2,3) loop by (simp add: handler_def)
  show ?thesis
  proof (intro conjI impI)
    assume "cloudwatch ?w1 (exec_command cfg clusters c) = Some e"
    from run [OF handlerLoop_exec_rejected
                   [where cloudwatch = cloudwatch and w = ?w1 and rest = after, OF own_c this]]
    show "handler cfg tagging cloudwatch w = Some (Inl e, ?w1)" .
  next
    assume "cloudwatch ?w1 (exec_command cfg clusters c) = None
          \<and> cloudwatch (exec_published cfg clusters c ?w1) (dev_command cfg clusters c) = Some e"
    then have a: "cloudwatch ?w1 (exec_command cfg clusters c) = None"
      and b: "cloudwatch (exec_published cfg clusters c ?w1) (dev_command cfg clusters c) = Some e"
      by simp_all
    from run [OF handlerLoop_dev_rejected
                   [where cloudwatch = cloudwatch and w = ?w1 and rest = after, OF own_c a b]]
    show "handler cfg tagging cloudwatch w = Some (Inl e, exec_published cfg clusters c ?w1)" .
  qed
qed

lemma three_cluster_discovery:
  "listTaggedResources three_cluster_tagging ''Cluster'' ''NodeJS'' empty_world
   = Some (Inr [mapping_a, mapping_b, mapping_c],
           empty_world\<lparr> requests := [page_request ''Cluster'' ''NodeJS'' None] \<rparr>)"
proof -
  have "pages_served three_cluster_tagging ''Cluster'' ''NodeJS'' None empty_world
          [\<lparr> ResourceTagMappingList = Some [mapping_a, mapping_b, mapping_c],
             resp_PaginationToken = None \<rparr>]"
    by (simp add: three_cluster_tagging_def token_truthy_def)
  from listLoop_pages [OF this, of "[]"] show ?thesis
    by (simp add: listTaggedResources_def page_mappings_def empty_world_def)
qed

lemma three_cluster_grouping:
  "groupByCluster [mapping_a, mapping_b, mapping_c] ''Cluster'' = Inr three_clusters"
  by (simp add: group_eval mapping_a_def mapping_b_def mapping_c_def three_clusters_def)

lemma three_cluster_keys: "Object_keys three_clusters = [''a'', ''b'', ''c'']"
  by (simp add: Object_keys_def three_clusters_def is_array_index_def is_digit_def)

text \<open>
  C3 says that a failed dashboard upsert for one cluster is caught and the remaining
  clusters are still processed. The handler has no \<open>try\<close>: with three clusters and a
  service that rejects the first cluster's executive dashboard, the loop and the handler
  end with that error, and nothing has been published or logged for any cluster.
\<close>

theorem publish_failure_counterexample:
  "groupByCluster [mapping_a, mapping_b, mapping_c] ''Cluster'' = Inr three_clusters
   \<and> Object_keys three_clusters = [''a'', ''b'', ''c'']
   \<and> handlerLoop scenario_config reject_exec_a three_clusters [''a'', ''b'', ''c''] empty_world
       = (Inl (SdkError ''rejected''), empty_world)
   \<and> handler scenario_config three_cluster_tagging reject_exec_a empty_world
       = Some (Inl (SdkError ''rejected''),
               \<lparr> requests = [page_request ''Cluster'' ''NodeJS'' None],
                 dashboards = [], console = [] \<rparr>)"
proof -
  have loop: "handlerLoop scenario_config reject_exec_a three_clusters [''a'', ''b'', ''c''] w
       = (Inl (SdkError ''rejected''), w)" for w
    by (simp add: three_clusters_def putDashboard_def reject_exec_a_def scenario_config_def Let_def)
  have "handler scenario_config three_cluster_tagging reject_exec_a empty_world
       = Some (Inl (SdkError ''rejected''),
               empty_world\<lparr> requests := [page_request ''Cluster'' ''NodeJS'' None] \<rparr>)"
    using three_cluster_discovery three_cluster_grouping three_cluster_keys loop
    by (simp add: handler_def scenario_config_def)
  then show ?thesis
    using three_cluster_grouping three_cluster_keys loop
    by (simp add: empty_world_def)
qed

text \<open>Three clusters; the service rejects the developer dashboard of the second.\<close>

theorem publish_failure_ends_the_run_witness:
  "accepts_all reject_dev_b scenario_config three_clusters [''a'']
     (empty_world\<lparr> requests := [page_request ''Cluster'' ''NodeJS'' None] \<rparr>)
   \<and> handler scenario_config three_cluster_tagging reject_dev_b empty_world
       = Some (Inl (SdkError ''rejected''),
               exec_published scenario_config three_clusters ''b''
                 (published scenario_config three_clusters [''a'']
                    (empty_world\<lparr> requests := [page_request ''Cluster'' ''NodeJS'' None] \<rparr>)))
   \<and> map DashboardName
         (dashboards (exec_published scenario_config three_clusters ''b''
                        (published scenario_config three_clusters [''a'']
                           (empty_world\<lparr> requests := [page_request ''Cluster'' ''NodeJS'' None] \<rparr>))))
       = [''Exec-a'', ''Dev-a'', ''Exec-b'']
   \<and> console (exec_published scenario_config three_clusters ''b''
                 (published scenario_config three_clusters [''a'']
                    (empty_world\<lparr> requests := [page_request ''Cluster'' ''NodeJS'' None] \<rparr>)))
       = [''Updated dashboard: Exec-a'', ''Updated dashboard: Dev-a'',
          ''Dashboards updated for cluster: a'', ''Updated dashboard: Exec-b'']"
proof -
  let ?w0 = "empty_world\<lparr> requests := [page_request ''Cluster'' ''NodeJS'' None] \<rparr>"
  let ?w1 = "published scenario_config three_clusters [''a''] ?w0"
  have h1: "listTaggedResources three_cluster_tagging (CLUSTER_TAG_KEY scenario_config)
              (TAG_VALUE scenario_config) empty_world
            = Some (Inr [mapping_a, mapping_b, mapping_c], ?w0)"
    using three_cluster_discovery by (simp add: scenario_config_def)
  have h2: "groupByCluster [mapping_a, mapping_b, mapping_c] (CLUSTER_TAG_KEY scenario_config)
            = Inr three_clusters"
    using three_cluster_grouping by (simp add: scenario_config_def)
  have h3: "Object_keys three_clusters = [''a''] @ ''b'' # [''c'']"
    using three_cluster_keys by simp
  have h4: "accepts_all reject_dev_b scenario_config three_clusters [''a''] ?w0"
    by (simp add: reject_dev_b_def exec_command_def dev_command_def scenario_config_def)
  have ex: "reject_dev_b ?w1 (exec_command scenario_config three_clusters ''b'') = None"
    by (simp add: reject_dev_b_def exec_command_def scenario_config_def)
  have dv: "reject_dev_b (exec_published scenario_config three_clusters ''b'' ?w1)
              (dev_command scenario_config three_clusters ''b'') = Some (SdkError ''rejected'')"
    by (simp add: reject_dev_b_def dev_command_def scenario_config_def)
  from publish_failure_ends_the_run [OF h1 h2 h3 h4, of "SdkError ''rejected''"] ex dv
  have run: "handler scenario_config three_cluster_tagging reject_dev_b empty_world
       = Some (Inl (SdkError ''rejected''),
               exec_published scenario_config three_clusters ''b'' ?w1)"
    by blast
  have names: "map DashboardName
         (dashboards (exec_published scenario_config three_clusters ''b'' ?w1))
       = [''Exec-a'', ''Dev-a'', ''Exec-b'']"
    by (simp add: exec_published_def published_def exec_command_def dev_command_def
          scenario_config_def empty_world_def)
  have log: "console (exec_published scenario_config three_clusters ''b'' ?w1)
       = [''Updated dashboard: Exec-a'', ''Updated dashboard: Dev-a'',
          ''Dashboards updated for cluster: a'', ''Updated dashboard: Exec-b'']"
    by (simp add: exec_published_def published_def scenario_config_def empty_world_def)
  from h4 run names log show ?thesis by (intro conjI)
qed

end
